theory Spec2Isabelle
  imports Complex_Main "HOL-Library.AList"
begin

section \<open>Python values\<close>

text \<open>
  The agents exchange \<^verbatim>\<open>Dict[str, Any]\<close> values whose entries come from the JSON that the
  text-generation provider returns, so values are dynamically typed. A float carries the
  exact rational value of a finite double, or one of the three special values that
  \<^verbatim>\<open>json.loads\<close> also accepts; floats are only ever compared, and Python compares
  an int with a float exactly. A dict is an association list in insertion order.
\<close>

datatype pyfloat = Finite rat | PosInf | NegInf | NaN

datatype jval =
    JNull
  | JBool bool
  | JInt int
  | JFloat pyfloat
  | JStr string
  | JList "jval list"
  | JObj "(string \<times> jval) list"

type_synonym jdict = "(string \<times> jval) list"

text \<open>An exception: the name of its class and \<^verbatim>\<open>str(e)\<close>.\<close>

datatype exc = Exc (exc_type: string) (exc_msg: string)

text \<open>\<^verbatim>\<open>d.get(k)\<close>, \<^verbatim>\<open>d.get(k, default)\<close> and \<^verbatim>\<open>d[k] = v\<close>.\<close>

definition dict_get :: "jdict \<Rightarrow> string \<Rightarrow> jval" where
  "dict_get d k = (case map_of d k of None \<Rightarrow> JNull | Some v \<Rightarrow> v)"

definition dict_get_or :: "jdict \<Rightarrow> string \<Rightarrow> jval \<Rightarrow> jval" where
  "dict_get_or d k dflt = (case map_of d k of None \<Rightarrow> dflt | Some v \<Rightarrow> v)"

definition dict_set :: "jdict \<Rightarrow> string \<Rightarrow> jval \<Rightarrow> jdict" where
  "dict_set d k v = AList.update k v d"

text \<open>Truth value testing (\<^verbatim>\<open>if value:\<close>, \<^verbatim>\<open>not value\<close>).\<close>

fun py_truthy :: "jval \<Rightarrow> bool" where
  "py_truthy JNull = False"
| "py_truthy (JBool b) = b"
| "py_truthy (JInt n) = (n \<noteq> 0)"
| "py_truthy (JFloat f) = (f \<noteq> Finite 0)"
| "py_truthy (JStr s) = (s \<noteq> [])"
| "py_truthy (JList xs) = (xs \<noteq> [])"
| "py_truthy (JObj d) = (d \<noteq> [])"

text \<open>
  Ordering comparisons. Every comparison in the pipeline has an int on the right
  (\<^verbatim>\<open>100\<close>, \<^verbatim>\<open>0\<close>, the target score, the iteration cap). bool is a subclass of int;
  any other operand raises TypeError. A comparison with NaN is false. The messages of
  the exceptions that the interpreter raises are abbreviated.
\<close>

fun num_view :: "jval \<Rightarrow> pyfloat option" where
  "num_view (JBool b) = Some (Finite (if b then 1 else 0))"
| "num_view (JInt n) = Some (Finite (of_int n))"
| "num_view (JFloat f) = Some f"
| "num_view _ = None"

fun float_lt :: "pyfloat \<Rightarrow> pyfloat \<Rightarrow> bool" where
  "float_lt NaN _ = False"
| "float_lt _ NaN = False"
| "float_lt (Finite a) (Finite b) = (a < b)"
| "float_lt (Finite a) PosInf = True"
| "float_lt (Finite a) NegInf = False"
| "float_lt PosInf _ = False"
| "float_lt NegInf NegInf = False"
| "float_lt NegInf _ = True"

definition cmp_error :: exc where
  "cmp_error = Exc ''TypeError'' ''comparison not supported between these types''"

definition py_lt_int :: "jval \<Rightarrow> int \<Rightarrow> exc + bool" where
  "py_lt_int v n = (case num_view v of
       None \<Rightarrow> Inl cmp_error
     | Some x \<Rightarrow> Inr (float_lt x (Finite (of_int n))))"

definition py_gt_int :: "jval \<Rightarrow> int \<Rightarrow> exc + bool" where
  "py_gt_int v n = (case num_view v of
       None \<Rightarrow> Inl cmp_error
     | Some x \<Rightarrow> Inr (float_lt (Finite (of_int n)) x))"

definition py_ge_int :: "jval \<Rightarrow> int \<Rightarrow> exc + bool" where
  "py_ge_int v n = (case num_view v of
       None \<Rightarrow> Inl cmp_error
     | Some x \<Rightarrow> Inr (x \<noteq> NaN \<and> \<not> float_lt x (Finite (of_int n))))"

text \<open>
  \<^verbatim>\<open>min(100, v)\<close> keeps its first argument unless \<^verbatim>\<open>v < 100\<close>;
  \<^verbatim>\<open>max(0, m)\<close> keeps its first argument unless \<^verbatim>\<open>m > 0\<close>.
\<close>

definition py_min_100 :: "jval \<Rightarrow> exc + jval" where
  "py_min_100 v = (case py_lt_int v 100 of
       Inl x \<Rightarrow> Inl x
     | Inr b \<Rightarrow> Inr (if b then v else JInt 100))"

definition py_max_0 :: "jval \<Rightarrow> exc + jval" where
  "py_max_0 m = (case py_gt_int m 0 of
       Inl x \<Rightarrow> Inl x
     | Inr b \<Rightarrow> Inr (if b then m else JInt 0))"

definition clamp_score :: "jval \<Rightarrow> exc + jval" where
  "clamp_score v = (case py_min_100 v of Inl x \<Rightarrow> Inl x | Inr m \<Rightarrow> py_max_0 m)"

text \<open>\<^verbatim>\<open>x + 1\<close> and \<^verbatim>\<open>len(x)\<close>.\<close>

fun py_add_1 :: "jval \<Rightarrow> exc + jval" where
  "py_add_1 (JInt n) = Inr (JInt (n + 1))"
| "py_add_1 (JBool b) = Inr (JInt ((if b then 1 else 0) + 1))"
| "py_add_1 (JFloat (Finite r)) = Inr (JFloat (Finite (r + 1)))"
| "py_add_1 (JFloat f) = Inr (JFloat f)"
| "py_add_1 _ = Inl (Exc ''TypeError'' ''unsupported operand type(s) for +'')"

fun py_len :: "jval \<Rightarrow> exc + int" where
  "py_len (JStr s) = Inr (int (length s))"
| "py_len (JList xs) = Inr (int (length xs))"
| "py_len (JObj d) = Inr (int (length d))"
| "py_len _ = Inl (Exc ''TypeError'' ''object has no len()'')"

subsection \<open>Strings\<close>

text \<open>
  Characters are code points below 256. \<^verbatim>\<open>str.strip()\<close> removes the characters for
  which \<^verbatim>\<open>str.isspace\<close> holds from both ends.
\<close>

definition py_isspace :: "char \<Rightarrow> bool" where
  "py_isspace c = (let n = (of_char c :: nat) in
     (9 \<le> n \<and> n \<le> 13) \<or> (28 \<le> n \<and> n \<le> 32) \<or> n = 133 \<or> n = 160)"

definition py_strip :: "string \<Rightarrow> string" where
  "py_strip s = rev (dropWhile py_isspace (rev (dropWhile py_isspace s)))"

definition startswith :: "string \<Rightarrow> string \<Rightarrow> bool" where
  "startswith s p = (take (length p) s = p)"

fun str_contains :: "string \<Rightarrow> string \<Rightarrow> bool" where
  "str_contains [] p = (p = [])"
| "str_contains (c # cs) p = (startswith (c # cs) p \<or> str_contains cs p)"

text \<open>
  \<^verbatim>\<open>', '.join(v[:n])\<close> inside an f-string: \<^verbatim>\<open>v\<close> must be sliceable and the slice must
  hold strings only, otherwise TypeError is raised while the prompt is built.
\<close>

fun is_JStr :: "jval \<Rightarrow> bool" where
  "is_JStr (JStr s) = True"
| "is_JStr _ = False"

fun join_slice_ok :: "nat \<Rightarrow> jval \<Rightarrow> bool" where
  "join_slice_ok n (JList xs) = list_all is_JStr (take n xs)"
| "join_slice_ok n (JStr s) = True"
| "join_slice_ok n _ = False"

fun sliceable :: "jval \<Rightarrow> bool" where
  "sliceable (JStr s) = True"
| "sliceable (JList xs) = True"
| "sliceable _ = False"

section \<open>The outside world\<close>

text \<open>
  The collaborators are parameters: the provider's reply to the n-th chat completion of
  a run (it may depend on the prompt in any way, so the prompt texts themselves are not
  built), \<^verbatim>\<open>json.loads\<close> (\<open>None\<close> is JSONDecodeError), the n-th HTTP GET, the
  BeautifulSoup extraction of each site parser from a fetched page, \<^verbatim>\<open>urlparse\<close>, and
  \<^verbatim>\<open>str.title\<close> on a text that has a character outside ASCII.
  The state counts the calls made; \<open>revisions\<close> counts the executions of the body of
  \<^verbatim>\<open>optimize_resume\<close> and \<open>score_runs\<close> the runs of the scoring stage.
\<close>

datatype http_outcome = ConnectError string | RequestError string | Response int string

record scrape =
  sr_success :: bool
  sr_job_text :: "string option"
  sr_title :: "string option"
  sr_company :: "string option"
  sr_error :: "string option"
  sr_source :: "string option"
  sr_note :: "string option"

record env =
  provider :: "nat \<Rightarrow> exc + string"
  json_loads :: "string \<Rightarrow> jval option"
  http_get :: "nat \<Rightarrow> string \<Rightarrow> http_outcome"
  soup_linkedin :: "string \<Rightarrow> scrape"
  soup_indeed :: "string \<Rightarrow> scrape"
  soup_glassdoor :: "string \<Rightarrow> scrape"
  soup_generic :: "string \<Rightarrow> scrape"
  urlparse_raises :: "string \<Rightarrow> bool"
  query_jk :: "string \<Rightarrow> string"
  unicode_title :: "string \<Rightarrow> string"

record world =
  llm_calls :: nat
  http_calls :: nat
  revisions :: nat
  score_runs :: nat

record settings =
  ATS_TARGET_SCORE :: int
  MAX_OPTIMIZATION_ITERATIONS :: int

definition default_settings :: settings where
  "default_settings = \<lparr>ATS_TARGET_SCORE = 85, MAX_OPTIMIZATION_ITERATIONS = 5\<rparr>"

section \<open>LLMService\<close>

text \<open>\<^verbatim>\<open>generate_text\<close>: one chat completion; a provider fault is re-raised as Exception.\<close>

definition generate_text :: "env \<Rightarrow> world \<Rightarrow> (exc + string) \<times> world" where
  "generate_text e w =
     (let w' = w\<lparr>llm_calls := Suc (llm_calls w)\<rparr> in
      case provider e (llm_calls w) of
        Inl x \<Rightarrow> (Inl (Exc ''Exception'' (''Failed to generate text: '' @ exc_msg x)), w')
      | Inr s \<Rightarrow> (Inr s, w'))"

text \<open>
  \<^verbatim>\<open>re.search(r'\{.*\}', response, re.DOTALL)\<close>: from the first opening brace to the
  last closing brace after it.
\<close>

definition brace_span :: "string \<Rightarrow> string option" where
  "brace_span s =
     (case dropWhile (\<lambda>c. c \<noteq> CHR ''{'') s of
        [] \<Rightarrow> None
      | b # t \<Rightarrow>
          (case rev (dropWhile (\<lambda>c. c \<noteq> CHR ''}'') (rev t)) of
             [] \<Rightarrow> None
           | r # rs \<Rightarrow> Some (b # r # rs)))"

definition parse_failure :: "string \<Rightarrow> jval" where
  "parse_failure response =
     JObj [(''error'', JStr ''Failed to parse JSON''), (''raw_response'', JStr response)]"

definition extract_json :: "env \<Rightarrow> world \<Rightarrow> jval \<times> world" where
  "extract_json e w =
     (case generate_text e w of
        (Inl x, w') \<Rightarrow> (JObj [(''error'', JStr (exc_msg x))], w')
      | (Inr response, w') \<Rightarrow>
          (case brace_span response of
             Some m \<Rightarrow>
               (case json_loads e m of
                  Some v \<Rightarrow> (v, w')
                | None \<Rightarrow> (parse_failure response, w'))
           | None \<Rightarrow>
               (case json_loads e response of
                  Some v \<Rightarrow> (v, w')
                | None \<Rightarrow> (parse_failure response, w'))))"

text \<open>
  \<^verbatim>\<open>calculate_ats_score\<close>. Building the prompt raises unless the two skill lists can be
  concatenated and sliced and joined; then the provider is asked once, and the score of
  its answer is clamped, or set to 50 when the answer has none. An answer that is not a
  dict makes the membership test or the item assignment raise.
\<close>

definition prompt_error :: exc where
  "prompt_error = Exc ''TypeError'' ''cannot build the prompt from these values''"

fun same_sequence_type :: "jval \<Rightarrow> jval \<Rightarrow> bool" where
  "same_sequence_type (JList xs) (JList ys) = True"
| "same_sequence_type (JStr s) (JStr t) = True"
| "same_sequence_type _ _ = False"

definition ats_prompt_ok :: "jval \<Rightarrow> jdict \<Rightarrow> bool" where
  "ats_prompt_ok resume_content job_requirements =
     (let required_skills = dict_get_or job_requirements ''skills_required'' (JList []);
          preferred_skills = dict_get_or job_requirements ''preferred_skills'' (JList [])
      in same_sequence_type required_skills preferred_skills
         \<and> join_slice_ok 10 required_skills
         \<and> join_slice_ok 10 preferred_skills
         \<and> join_slice_ok 5 (dict_get_or job_requirements ''requirements'' (JList []))
         \<and> sliceable resume_content)"

fun not_a_dict_error :: "jval \<Rightarrow> exc" where
  "not_a_dict_error (JList xs) =
     (if JStr ''ats_score'' \<in> set xs
      then Exc ''AttributeError'' ''list object has no attribute get''
      else Exc ''TypeError'' ''list indices must be integers or slices, not str'')"
| "not_a_dict_error (JStr s) =
     (if str_contains s ''ats_score''
      then Exc ''AttributeError'' ''str object has no attribute get''
      else Exc ''TypeError'' ''str object does not support item assignment'')"
| "not_a_dict_error _ = Exc ''TypeError'' ''argument is not iterable''"

definition calculate_ats_score :: "env \<Rightarrow> jval \<Rightarrow> jval \<Rightarrow> world \<Rightarrow> (exc + jdict) \<times> world" where
  "calculate_ats_score e resume_content job_requirements w =
     (case job_requirements of
        JObj jd \<Rightarrow>
          if ats_prompt_ok resume_content jd then
            (case extract_json e w of
               (JObj result, w') \<Rightarrow>
                 (case map_of result ''ats_score'' of
                    Some v \<Rightarrow>
                      (case clamp_score v of
                         Inl x \<Rightarrow> (Inl x, w')
                       | Inr c \<Rightarrow> (Inr (dict_set result ''ats_score'' c), w'))
                  | None \<Rightarrow> (Inr (dict_set result ''ats_score'' (JInt 50)), w'))
             | (other, w') \<Rightarrow> (Inl (not_a_dict_error other), w'))
          else (Inl prompt_error, w)
      | _ \<Rightarrow> (Inl (Exc ''AttributeError'' ''object has no attribute get''), w))"

text \<open>
  \<^verbatim>\<open>optimize_resume(self, current_resume, ats_feedback)\<close>. The prompt is built outside
  the \<^verbatim>\<open>try\<close>, so a fault there propagates; a provider fault, or a reply that does not
  start with the document preamble once stripped, gives the current resume back.
\<close>

definition optimize_prompt_ok :: "jval \<Rightarrow> jdict \<Rightarrow> bool" where
  "optimize_prompt_ok current_resume ats_feedback =
     (sliceable current_resume
      \<and> join_slice_ok 10 (dict_get_or ats_feedback ''missing_keywords'' (JList []))
      \<and> join_slice_ok 5 (dict_get_or ats_feedback ''suggestions'' (JList [])))"

definition optimize_resume :: "env \<Rightarrow> jval \<Rightarrow> jval \<Rightarrow> world \<Rightarrow> (exc + jval) \<times> world" where
  "optimize_resume e current_resume ats_feedback w0 =
     (let w = w0\<lparr>revisions := Suc (revisions w0)\<rparr> in
      case ats_feedback of
        JObj fb \<Rightarrow>
          if optimize_prompt_ok current_resume fb then
            (case generate_text e w of
               (Inr optimized, w') \<Rightarrow>
                 (if startswith (py_strip optimized) (CHR 0x5C # ''documentclass'')
                  then (Inr (JStr optimized), w')
                  else (Inr current_resume, w'))
             | (Inl x, w') \<Rightarrow> (Inr current_resume, w'))
          else (Inl prompt_error, w)
      | _ \<Rightarrow> (Inl (Exc ''AttributeError'' ''object has no attribute get''), w))"

text \<open>
  A call of the bound method with positional arguments: the method declares two
  parameters besides \<^verbatim>\<open>self\<close>, and binding any other number of arguments raises
  TypeError before the body runs. The message is the one for the three arguments that
  the only caller passes.
\<close>

definition arity_error :: exc where
  "arity_error = Exc ''TypeError''
     ''LLMService.optimize_resume() takes 3 positional arguments but 4 were given''"

definition call_optimize_resume :: "env \<Rightarrow> jval list \<Rightarrow> world \<Rightarrow> (exc + jval) \<times> world" where
  "call_optimize_resume e args w =
     (case args of
        [current_resume, ats_feedback] \<Rightarrow> optimize_resume e current_resume ats_feedback w
      | _ \<Rightarrow> (Inl arity_error, w))"

section \<open>BaseAgent\<close>

text \<open>
  \<^verbatim>\<open>run\<close> wraps \<^verbatim>\<open>execute\<close>: a result dict gets the agent's name and
  \<^verbatim>\<open>success = True\<close>; any exception becomes an error dict. The elapsed time and the
  execution log, which nothing reads, are left out.
\<close>

definition run ::
  "string \<Rightarrow> ('i \<Rightarrow> world \<Rightarrow> (exc + jdict) \<times> world) \<Rightarrow> 'i \<Rightarrow> world \<Rightarrow> jdict \<times> world" where
  "run agent_name execute input_data w =
     (case execute input_data w of
        (Inr result, w') \<Rightarrow>
          (dict_set (dict_set result ''agent_name'' (JStr agent_name)) ''success'' (JBool True), w')
      | (Inl x, w') \<Rightarrow>
          ([(''agent_name'', JStr agent_name),
            (''success'', JBool False),
            (''error'', JStr (exc_msg x)),
            (''error_type'', JStr (exc_type x))], w'))"

section \<open>ATSScorerAgent\<close>

definition ats_scorer_execute :: "env \<Rightarrow> jdict \<Rightarrow> world \<Rightarrow> (exc + jdict) \<times> world" where
  "ats_scorer_execute e input_data w =
     (let resume_content = dict_get input_data ''resume_content'';
          job_data = dict_get input_data ''job_data''
      in if \<not> (py_truthy resume_content \<and> py_truthy job_data)
         then (Inl (Exc ''ValueError'' ''resume_content and job_data required''), w)
         else
           (case calculate_ats_score e resume_content job_data w of
              (Inl x, w') \<Rightarrow> (Inl x, w')
            | (Inr score_data, w') \<Rightarrow>
                (Inr [(''ats_score'', dict_get_or score_data ''ats_score'' (JInt 0)),
                      (''keyword_matches'', dict_get_or score_data ''keyword_matches'' (JList [])),
                      (''missing_keywords'', dict_get_or score_data ''missing_keywords'' (JList [])),
                      (''suggestions'', dict_get_or score_data ''suggestions'' (JList []))], w')))"

definition ats_scorer_agent_run :: "env \<Rightarrow> jdict \<Rightarrow> world \<Rightarrow> jdict \<times> world" where
  "ats_scorer_agent_run e input_data w =
     run ''ATS_Scorer'' (ats_scorer_execute e) input_data (w\<lparr>score_runs := Suc (score_runs w)\<rparr>)"

section \<open>OptimizerAgent\<close>

text \<open>
  \<^verbatim>\<open>execute\<close> passes the current resume, the feedback and the iteration to
  \<^verbatim>\<open>optimize_resume\<close>. The history record is appended after that call returns, to the
  list object that the caller passed in; the model returns the extended list, and an
  exception raised before the append leaves the caller's list as it was.
\<close>

definition optimizer_execute :: "settings \<Rightarrow> env \<Rightarrow> jdict \<Rightarrow> world \<Rightarrow> (exc + jdict) \<times> world" where
  "optimizer_execute st e input_data w =
     (let current_resume = dict_get input_data ''resume_content'';
          ats_score = dict_get_or input_data ''ats_score'' (JInt 0);
          iteration = dict_get_or input_data ''iteration'' (JInt 1);
          optimization_history = dict_get_or input_data ''optimization_history'' (JList [])
      in case py_ge_int ats_score (ATS_TARGET_SCORE st) of
           Inl x \<Rightarrow> (Inl x, w)
         | Inr True \<Rightarrow>
             (Inr [(''should_continue'', JBool False),
                   (''final_resume'', current_resume),
                   (''final_score'', ats_score),
                   (''total_iterations'', iteration)], w)
         | Inr False \<Rightarrow>
             (case py_ge_int iteration (MAX_OPTIMIZATION_ITERATIONS st) of
                Inl x \<Rightarrow> (Inl x, w)
              | Inr True \<Rightarrow>
                  (Inr [(''should_continue'', JBool False),
                        (''final_resume'', current_resume),
                        (''final_score'', ats_score),
                        (''total_iterations'', iteration),
                        (''note'', JStr ''Max iterations reached'')], w)
              | Inr False \<Rightarrow>
                  (let ats_feedback =
                         [(''score'', ats_score),
                          (''missing_keywords'', dict_get_or input_data ''missing_keywords'' (JList [])),
                          (''suggestions'', dict_get_or input_data ''suggestions'' (JList []))]
                   in case call_optimize_resume e [current_resume, JObj ats_feedback, iteration] w of
                        (Inl x, w') \<Rightarrow> (Inl x, w')
                      | (Inr improved_resume, w') \<Rightarrow>
                          (case optimization_history of
                             JList h \<Rightarrow>
                               (case py_add_1 iteration of
                                  Inl x \<Rightarrow> (Inl x, w')
                                | Inr next_iteration \<Rightarrow>
                                    (Inr [(''should_continue'', JBool True),
                                          (''resume_content'', improved_resume),
                                          (''iteration'', next_iteration),
                                          (''optimization_history'',
                                             JList (h @ [JObj [(''iteration'', iteration),
                                                               (''score'', ats_score),
                                                               (''changes'', dict_get_or ats_feedback ''suggestions'' (JList []))]]))], w'))
                           | _ \<Rightarrow> (Inl (Exc ''AttributeError'' ''object has no attribute append''), w')))))"

definition optimizer_agent_run :: "settings \<Rightarrow> env \<Rightarrow> jdict \<Rightarrow> world \<Rightarrow> jdict \<times> world" where
  "optimizer_agent_run st e input_data w = run ''Optimizer'' (optimizer_execute st e) input_data w"

section \<open>The optimization loop of generate_resume\<close>

text \<open>
  The part of \<^verbatim>\<open>generate_resume\<close> after the generation stage: the loop over
  \<^verbatim>\<open>range(1, 6)\<close>, the final scoring run and the row that is stored and returned. The
  result of the loop is the resume and the history it holds when it leaves; a missing
  \<^verbatim>\<open>resume_content\<close> key would raise KeyError. The two dict literals that the loop
  passes to the stages are named, and so is the part after the loop.
\<close>

definition optimizer_input :: "jval \<Rightarrow> jdict \<Rightarrow> int \<Rightarrow> jval \<Rightarrow> jdict" where
  "optimizer_input resume_content score_result iteration optimization_history =
     [(''resume_content'', resume_content),
      (''ats_score'', dict_get_or score_result ''ats_score'' (JInt 0)),
      (''iteration'', JInt iteration),
      (''missing_keywords'', dict_get_or score_result ''missing_keywords'' (JList [])),
      (''suggestions'', dict_get_or score_result ''suggestions'' (JList [])),
      (''optimization_history'', optimization_history)]"

definition scorer_input :: "jval \<Rightarrow> jval \<Rightarrow> jdict" where
  "scorer_input resume_content job_data =
     [(''resume_content'', resume_content), (''job_data'', job_data)]"

fun optimization_loop ::
  "settings \<Rightarrow> env \<Rightarrow> jval \<Rightarrow> int list \<Rightarrow> jval \<Rightarrow> jval \<Rightarrow> world \<Rightarrow> (exc + jval \<times> jval) \<times> world" where
  "optimization_loop st e job_data [] resume_content optimization_history w =
     (Inr (resume_content, optimization_history), w)"
| "optimization_loop st e job_data (iteration # rest) resume_content optimization_history w =
     (case ats_scorer_agent_run e (scorer_input resume_content job_data) w of
        (score_result, w1) \<Rightarrow>
          if \<not> py_truthy (dict_get score_result ''success'')
          then (Inr (resume_content, optimization_history), w1)
          else
            (case optimizer_agent_run st e
                    (optimizer_input resume_content score_result iteration optimization_history) w1 of
               (opt_result, w2) \<Rightarrow>
                 if \<not> py_truthy (dict_get opt_result ''should_continue'')
                 then (Inr (resume_content, optimization_history), w2)
                 else
                   (case map_of opt_result ''resume_content'' of
                      None \<Rightarrow> (Inl (Exc ''KeyError'' ''resume_content''), w2)
                    | Some revised \<Rightarrow>
                        optimization_loop st e job_data rest revised
                          (dict_get_or opt_result ''optimization_history'' (JList [])) w2)))"

record resume_row =
  latex_content :: jval
  ats_score :: jval
  iterations :: int
  keywords_col :: jval
  optimization_history :: jval

definition finish_resume :: "env \<Rightarrow> jval \<Rightarrow> jval \<Rightarrow> jval \<Rightarrow> world \<Rightarrow> (exc + resume_row) \<times> world" where
  "finish_resume e job_data resume_content history w =
     (case ats_scorer_agent_run e (scorer_input resume_content job_data) w of
        (final_score_result, w') \<Rightarrow>
          (let final_score =
                 (if py_truthy (dict_get final_score_result ''success'')
                  then dict_get_or final_score_result ''ats_score'' (JInt 0)
                  else JInt 0)
           in case py_len history of
                Inl x \<Rightarrow> (Inl x, w')
              | Inr n \<Rightarrow>
                  (Inr \<lparr>latex_content = resume_content,
                        ats_score = final_score,
                        iterations = n + 1,
                        keywords_col = dict_get_or final_score_result ''keyword_matches'' (JList []),
                        optimization_history = history\<rparr>, w')))"

definition generate_resume_from ::
  "settings \<Rightarrow> env \<Rightarrow> jval \<Rightarrow> jval \<Rightarrow> world \<Rightarrow> (exc + resume_row) \<times> world" where
  "generate_resume_from st e job_data generated w =
     (case optimization_loop st e job_data [1, 2, 3, 4, 5] generated (JList []) w of
        (Inl x, w1) \<Rightarrow> (Inl x, w1)
      | (Inr (resume_content, history), w1) \<Rightarrow> finish_resume e job_data resume_content history w1)"

section \<open>WebScraperService\<close>

text \<open>
  The two regular expressions that \<^verbatim>\<open>_parse_url_info\<close> searches a LinkedIn URL for.
  \<^verbatim>\<open>re.search\<close> takes the leftmost position at which the pattern matches, and a greedy
  \<^verbatim>\<open>[^/]+\<close> takes the longest run for which the rest of the pattern still matches.
\<close>

definition is_digit :: "char \<Rightarrow> bool" where
  "is_digit c = (let n = (of_char c :: nat) in 48 \<le> n \<and> n \<le> 57)"

fun first_some :: "('a \<Rightarrow> 'b option) \<Rightarrow> 'a list \<Rightarrow> 'b option" where
  "first_some f [] = None"
| "first_some f (x # xs) = (case f x of Some y \<Rightarrow> Some y | None \<Rightarrow> first_some f xs)"

text \<open>\<^verbatim>\<open>/jobs/view/(\d+)\<close>\<close>

fun search_job_id :: "string \<Rightarrow> string option" where
  "search_job_id [] = None"
| "search_job_id (c # cs) =
     (if startswith (c # cs) ''/jobs/view/'' \<and> takeWhile is_digit (drop 11 (c # cs)) \<noteq> []
      then Some (takeWhile is_digit (drop 11 (c # cs)))
      else search_job_id cs)"

text \<open>
  The ways to cut a non-empty \<^verbatim>\<open>[^/]+\<close> off the front of a string, longest first, each
  with what is left.
\<close>

definition greedy_splits :: "string \<Rightarrow> (string \<times> string) list" where
  "greedy_splits s =
     map (\<lambda>k. (take k s, drop k s))
         (rev [1 ..< Suc (length (takeWhile (\<lambda>c. c \<noteq> CHR ''/'') s))])"

text \<open>\<^verbatim>\<open>([^/]+)-\d+\<close> at the front of a string.\<close>

definition match_company_id :: "string \<Rightarrow> string option" where
  "match_company_id s =
     first_some (\<lambda>(g, r). case r of
                    d1 # d2 # _ \<Rightarrow> if d1 = CHR ''-'' \<and> is_digit d2 then Some g else None
                  | _ \<Rightarrow> None)
       (greedy_splits s)"

text \<open>\<^verbatim>\<open>([^/]+)-at-([^/]+)-\d+\<close> at the front of a string.\<close>

definition match_title_company :: "string \<Rightarrow> (string \<times> string) option" where
  "match_title_company s =
     first_some (\<lambda>(g1, r). if startswith r ''-at-''
                    then (case match_company_id (drop 4 r) of
                            Some g2 \<Rightarrow> Some (g1, g2)
                          | None \<Rightarrow> None)
                    else None)
       (greedy_splits s)"

text \<open>\<^verbatim>\<open>/jobs/view/([^/]+)-at-([^/]+)-\d+\<close>\<close>

fun search_title :: "string \<Rightarrow> (string \<times> string) option" where
  "search_title [] = None"
| "search_title (c # cs) =
     (if startswith (c # cs) ''/jobs/view/''
      then (case match_title_company (drop 11 (c # cs)) of
              Some m \<Rightarrow> Some m
            | None \<Rightarrow> search_title cs)
      else search_title cs)"

text \<open>
  \<^verbatim>\<open>.replace('-', ' ').title()\<close>. On a text of ASCII characters the cased characters
  are the 52 letters, and \<^verbatim>\<open>str.title\<close> puts a letter in upper case when the character
  before it is not a letter and in lower case when it is. A text with any other
  character is title-cased by the collaborator \<open>unicode_title\<close>, since the cased
  letters outside ASCII and their mappings are the interpreter's.
\<close>

definition is_ascii :: "char \<Rightarrow> bool" where
  "is_ascii c = ((of_char c :: nat) < 128)"

definition is_ascii_lower :: "char \<Rightarrow> bool" where
  "is_ascii_lower c = (let n = (of_char c :: nat) in 97 \<le> n \<and> n \<le> 122)"

definition is_ascii_upper :: "char \<Rightarrow> bool" where
  "is_ascii_upper c = (let n = (of_char c :: nat) in 65 \<le> n \<and> n \<le> 90)"

definition to_upper :: "char \<Rightarrow> char" where
  "to_upper c = (if is_ascii_lower c then char_of ((of_char c :: nat) - 32) else c)"

definition to_lower :: "char \<Rightarrow> char" where
  "to_lower c = (if is_ascii_upper c then char_of ((of_char c :: nat) + 32) else c)"

fun title_from :: "bool \<Rightarrow> string \<Rightarrow> string" where
  "title_from previous_is_cased [] = []"
| "title_from previous_is_cased (c # cs) =
     (if previous_is_cased then to_lower c else to_upper c)
       # title_from (is_ascii_lower c \<or> is_ascii_upper c) cs"

definition py_title :: "env \<Rightarrow> string \<Rightarrow> string" where
  "py_title e s = (if list_all is_ascii s then title_from False s else unicode_title e s)"

definition dashes_to_spaces :: "string \<Rightarrow> string" where
  "dashes_to_spaces s = map (\<lambda>c. if c = CHR ''-'' then CHR '' '' else c) s"

text \<open>
  \<^verbatim>\<open>_parse_url_info\<close>: the dict it fills always has a source when it is not empty, and an
  empty dict is returned as \<^verbatim>\<open>None\<close>, as is any exception of \<^verbatim>\<open>urlparse\<close> or
  \<^verbatim>\<open>parse_qs\<close>.
\<close>

record url_info =
  ui_source :: string
  ui_job_id :: "string option"
  ui_title :: "string option"
  ui_company :: "string option"

definition parse_url_info :: "env \<Rightarrow> string \<Rightarrow> url_info option" where
  "parse_url_info e url =
     (if urlparse_raises e url then None
      else if str_contains url ''linkedin.com'' then
        Some \<lparr>ui_source = ''LinkedIn'',
              ui_job_id = search_job_id url,
              ui_title = map_option (\<lambda>(t, c). py_title e (dashes_to_spaces t)) (search_title url),
              ui_company = map_option (\<lambda>(t, c). py_title e (dashes_to_spaces c)) (search_title url)\<rparr>
      else if str_contains url ''indeed.com'' then
        Some \<lparr>ui_source = ''Indeed'',
              ui_job_id = (if query_jk e url \<noteq> [] then Some (query_jk e url) else None),
              ui_title = None,
              ui_company = None\<rparr>
      else if str_contains url ''glassdoor.com'' then
        Some \<lparr>ui_source = ''Glassdoor'', ui_job_id = None, ui_title = None, ui_company = None\<rparr>
      else None)"

text \<open>The info that \<^verbatim>\<open>_parse_url_info\<close> returns for a LinkedIn URL whose slug matches.\<close>

definition linkedin_info :: "env \<Rightarrow> string \<Rightarrow> string \<Rightarrow> string \<Rightarrow> url_info" where
  "linkedin_info e url t c =
     \<lparr>ui_source = ''LinkedIn'',
      ui_job_id = search_job_id url,
      ui_title = Some (py_title e (dashes_to_spaces t)),
      ui_company = Some (py_title e (dashes_to_spaces c))\<rparr>"

definition opt_or :: "'a option \<Rightarrow> 'a \<Rightarrow> 'a" where
  "opt_or x dflt = (case x of None \<Rightarrow> dflt | Some v \<Rightarrow> v)"

definition generate_placeholder_jd :: "url_info \<Rightarrow> string \<Rightarrow> string" where
  "generate_placeholder_jd info url =
     ''Job Posting from '' @ ui_source info @ ''\<newline>\<newline>''
     @ ''Job Title: '' @ opt_or (ui_title info) ''Position'' @ ''\<newline>''
     @ ''Company: '' @ opt_or (ui_company info) ''Company'' @ ''\<newline>''
     @ ''Source URL: '' @ url @ ''\<newline>\<newline>''
     @ ''Note: This job description was extracted from the URL pattern. \<newline>''
     @ ''For the most accurate resume generation, please use the '' @ [CHR 0x22]
     @ ''Paste JD'' @ [CHR 0x22] @ '' option \<newline>''
     @ ''and copy the full job description from the job posting.\<newline>\<newline>''
     @ ''The AI will generate a resume based on:\<newline>''
     @ ''- The job title and company extracted from the URL\<newline>''
     @ ''- Your profile information\<newline>''
     @ ''- Standard requirements for this type of role\<newline>''"

text \<open>\<^verbatim>\<open>str(n)\<close> of a status code.\<close>

fun str_nat :: "nat \<Rightarrow> string" where
  "str_nat n = (if n < 10 then [char_of (48 + n)]
                else str_nat (n div 10) @ [char_of (48 + n mod 10)])"

definition str_int :: "int \<Rightarrow> string" where
  "str_int i = (if i < 0 then CHR ''-'' # str_nat (nat (- i)) else str_nat (nat i))"

text \<open>
  The site fetchers. Each makes one GET and catches every exception; a status other
  than 200 is a failure. What BeautifulSoup extracts from a fetched page is the
  parameter of the site.
\<close>

definition failed :: "string \<Rightarrow> scrape" where
  "failed msg = \<lparr>sr_success = False, sr_job_text = Some [], sr_title = None, sr_company = None,
                  sr_error = Some msg, sr_source = None, sr_note = None\<rparr>"

definition client_get :: "env \<Rightarrow> string \<Rightarrow> world \<Rightarrow> http_outcome \<times> world" where
  "client_get e url w = (http_get e (http_calls w) url, w\<lparr>http_calls := Suc (http_calls w)\<rparr>)"

definition fetch_linkedin :: "env \<Rightarrow> string \<Rightarrow> world \<Rightarrow> scrape \<times> world" where
  "fetch_linkedin e url w =
     (case client_get e url w of
        (ConnectError m, w') \<Rightarrow>
          (failed (''Connection error: '' @ m @ ''. Check your internet connection.''), w')
      | (RequestError m, w') \<Rightarrow> (failed m, w')
      | (Response status body, w') \<Rightarrow>
          if status \<noteq> 200
          then (failed (''LinkedIn returned status '' @ str_int status
                        @ ''. This job may require login.''), w')
          else (soup_linkedin e body, w'))"

definition fetch_indeed :: "env \<Rightarrow> string \<Rightarrow> world \<Rightarrow> scrape \<times> world" where
  "fetch_indeed e url w =
     (case client_get e url w of
        (ConnectError m, w') \<Rightarrow> (failed m, w')
      | (RequestError m, w') \<Rightarrow> (failed m, w')
      | (Response status body, w') \<Rightarrow>
          if status \<noteq> 200
          then (failed (''Indeed returned status '' @ str_int status), w')
          else (soup_indeed e body, w'))"

definition fetch_glassdoor :: "env \<Rightarrow> string \<Rightarrow> world \<Rightarrow> scrape \<times> world" where
  "fetch_glassdoor e url w =
     (case client_get e url w of
        (ConnectError m, w') \<Rightarrow> (failed m, w')
      | (RequestError m, w') \<Rightarrow> (failed m, w')
      | (Response status body, w') \<Rightarrow>
          if status \<noteq> 200
          then (failed (''Glassdoor returned status '' @ str_int status), w')
          else (soup_glassdoor e body, w'))"

definition fetch_generic :: "env \<Rightarrow> string \<Rightarrow> world \<Rightarrow> scrape \<times> world" where
  "fetch_generic e url w =
     (case client_get e url w of
        (ConnectError m, w') \<Rightarrow> (failed m, w')
      | (RequestError m, w') \<Rightarrow> (failed m, w')
      | (Response status body, w') \<Rightarrow>
          if status \<noteq> 200
          then (failed (''Site returned status '' @ str_int status), w')
          else (soup_generic e body, w'))"

text \<open>
  \<^verbatim>\<open>fetch_job_from_url\<close>. Nothing in the body of its \<^verbatim>\<open>try\<close> raises, since the
  fetchers and \<^verbatim>\<open>_parse_url_info\<close> catch their own exceptions, so the handler is not
  reached.
\<close>

definition fetch_job_from_url :: "env \<Rightarrow> string \<Rightarrow> world \<Rightarrow> scrape \<times> world" where
  "fetch_job_from_url e url w =
     (let info = parse_url_info e url in
      case (if str_contains url ''linkedin.com'' then fetch_linkedin e url w
            else if str_contains url ''indeed.com'' then fetch_indeed e url w
            else if str_contains url ''glassdoor.com'' then fetch_glassdoor e url w
            else fetch_generic e url w) of
        (result, w') \<Rightarrow>
          (case info of
             Some url_info \<Rightarrow>
               if \<not> sr_success result
               then (\<lparr>sr_success = True,
                      sr_job_text = Some (generate_placeholder_jd url_info url),
                      sr_title = Some (opt_or (ui_title url_info) []),
                      sr_company = Some (opt_or (ui_company url_info) []),
                      sr_error = None,
                      sr_source = Some ''url_parsed'',
                      sr_note = Some (''Job details extracted from URL. ''
                        @ ''For best results, paste the full job description.'')\<rparr>, w')
               else (result, w')
           | None \<Rightarrow> (result, w')))"

section \<open>JDExtractorAgent\<close>

text \<open>
  Every caller builds the input with \<^verbatim>\<open>request.field or ""\<close>, so the four entries are
  strings. \<^verbatim>\<open>_structure_job_data\<close> asks the provider once and merges the truthy entries
  of its answer over the defaults. The part of \<^verbatim>\<open>execute\<close> after the URL block, which
  both paths reach with their own text, title and company, is \<open>structure_and_override\<close>.
\<close>

record jd_input =
  job_url :: string
  job_description_text :: string
  job_title :: string
  company_name :: string

definition default_result :: "string \<Rightarrow> jdict" where
  "default_result raw_text =
     [(''job_title'', JStr ''Position''),
      (''company_name'', JStr ''Company''),
      (''job_description'', JStr (take 1000 raw_text)),
      (''requirements'', JList []),
      (''responsibilities'', JList []),
      (''skills_required'', JList []),
      (''preferred_skills'', JList []),
      (''experience_level'', JStr ''mid''),
      (''keywords'', JList [])]"

definition merge_results :: "jdict \<Rightarrow> jdict \<Rightarrow> jdict" where
  "merge_results result dflt =
     fold (\<lambda>(key, v) d. if py_truthy v then dict_set d key v else d) result dflt"

definition structure_job_data :: "env \<Rightarrow> string \<Rightarrow> world \<Rightarrow> jdict \<times> world" where
  "structure_job_data e raw_text w =
     (case extract_json e w of
        (JObj result, w') \<Rightarrow> (merge_results result (default_result raw_text), w')
      | (other, w') \<Rightarrow> (default_result raw_text, w'))"

definition no_description :: exc where
  "no_description = Exc ''ValueError''
     (''No job description available. ''
      @ ''Please provide a valid URL or paste the job description.'')"

definition structure_and_override ::
  "env \<Rightarrow> string \<Rightarrow> string \<Rightarrow> string \<Rightarrow> world \<Rightarrow> (exc + jdict) \<times> world" where
  "structure_and_override e job_text title company w =
     (if job_text = [] \<or> length (py_strip job_text) < 20 then (Inl no_description, w)
      else
        (case structure_job_data e job_text w of
           (structured_data, w') \<Rightarrow>
             (let d1 = (if title \<noteq> [] then dict_set structured_data ''job_title'' (JStr title)
                        else structured_data);
                  d2 = (if company \<noteq> [] then dict_set d1 ''company_name'' (JStr company)
                        else d1)
              in (Inr d2, w'))))"

definition jd_extractor_execute :: "env \<Rightarrow> jd_input \<Rightarrow> world \<Rightarrow> (exc + jdict) \<times> world" where
  "jd_extractor_execute e input_data w =
     (if job_url input_data \<noteq> [] \<and> py_strip (job_url input_data) \<noteq> [] then
        (case fetch_job_from_url e (py_strip (job_url input_data)) w of
           (scrape_result, w') \<Rightarrow>
             if sr_success scrape_result then
               structure_and_override e
                 (opt_or (sr_job_text scrape_result) [])
                 (if job_title input_data = [] then opt_or (sr_title scrape_result) []
                  else job_title input_data)
                 (if company_name input_data = [] then opt_or (sr_company scrape_result) []
                  else company_name input_data)
                 w'
             else
               (Inl (Exc ''ValueError'' (''Could not extract job from URL: ''
                       @ opt_or (sr_error scrape_result) ''Failed to fetch URL'')), w'))
      else
        structure_and_override e (job_description_text input_data)
          (job_title input_data) (company_name input_data) w)"

definition jd_extractor_agent_run :: "env \<Rightarrow> jd_input \<Rightarrow> world \<Rightarrow> jdict \<times> world" where
  "jd_extractor_agent_run e input_data w = run ''JD_Extractor'' (jd_extractor_execute e) input_data w"

section \<open>Example runs\<close>

text \<open>
  Concrete collaborators for the examples: provider replies, the values that
  \<^verbatim>\<open>json.loads\<close> gives for them, and a source fetcher with a fixed outcome. The texts
  of the examples are ASCII, so \<open>unicode_title\<close> is never consulted in them.
\<close>

definition quoted :: "string \<Rightarrow> string" where
  "quoted s = CHR 0x22 # s @ [CHR 0x22]"

definition reply_score_60 :: string where
  "reply_score_60 = ''{'' @ quoted ''ats_score'' @ '': 60}''"

definition reply_score_90 :: string where
  "reply_score_90 = ''{'' @ quoted ''ats_score'' @ '': 90}''"

definition reply_score_float :: string where
  "reply_score_float = ''{'' @ quoted ''ats_score'' @ '': 85.5}''"

definition reply_score_text :: string where
  "reply_score_text = ''{'' @ quoted ''ats_score'' @ '': '' @ quoted ''high'' @ ''}''"

definition reply_no_score :: string where
  "reply_no_score = ''{}''"

definition reply_skills :: string where
  "reply_skills = ''{'' @ quoted ''job_title'' @ '': '' @ quoted [] @ '', ''
     @ quoted ''skills_required'' @ '': ['' @ quoted ''Go'' @ '', '' @ quoted ''SQL'' @ '']}''"

definition reply_prose :: string where
  "reply_prose = ''Here is the improved resume.''"

definition example_loads :: "string \<Rightarrow> jval option" where
  "example_loads s =
     (if s = reply_score_60 then Some (JObj [(''ats_score'', JInt 60)])
      else if s = reply_score_90 then Some (JObj [(''ats_score'', JInt 90)])
      else if s = reply_score_float then Some (JObj [(''ats_score'', JFloat (Finite (171 / 2)))])
      else if s = reply_score_text then Some (JObj [(''ats_score'', JStr ''high'')])
      else if s = reply_no_score then Some (JObj [])
      else if s = reply_skills
        then Some (JObj [(''job_title'', JStr []),
                         (''skills_required'', JList [JStr ''Go'', JStr ''SQL''])])
      else None)"

definition example_env :: "(nat \<Rightarrow> exc + string) \<Rightarrow> http_outcome \<Rightarrow> env" where
  "example_env replies outcome =
     \<lparr>provider = replies,
      json_loads = example_loads,
      http_get = (\<lambda>n url. outcome),
      soup_linkedin = (\<lambda>body. failed ''Could not extract job description.''),
      soup_indeed = (\<lambda>body. failed []),
      soup_glassdoor = (\<lambda>body. failed []),
      soup_generic = (\<lambda>body. failed []),
      urlparse_raises = (\<lambda>url. False),
      query_jk = (\<lambda>url. []),
      unicode_title = (\<lambda>s. s)\<rparr>"

definition fresh_world :: world where
  "fresh_world = \<lparr>llm_calls = 0, http_calls = 0, revisions = 0, score_runs = 0\<rparr>"

definition example_job :: jval where
  "example_job = JObj [(''job_title'', JStr ''Backend Engineer''),
                       (''company_name'', JStr ''Acme''),
                       (''skills_required'', JList [JStr ''Go'', JStr ''SQL'', JStr ''Docker'']),
                       (''preferred_skills'', JList []),
                       (''requirements'', JList [])]"

definition example_resume :: jval where
  "example_resume = JStr (CHR 0x5C # ''documentclass{article}'')"

definition example_posting_text :: string where
  "example_posting_text = ''Senior backend engineer with Go and SQL experience.''"

definition example_linkedin_url :: string where
  "example_linkedin_url =
     ''https://www.linkedin.com/jobs/view/software-engineer-at-acme-corp-123456''"

text \<open>The number of characters of a text that are not whitespace, as the specification counts.\<close>

definition non_whitespace_count :: "string \<Rightarrow> nat" where
  "non_whitespace_count s = length (filter (\<lambda>c. \<not> py_isspace c) s)"


section \<open>Stage wrapper and optimizer facts\<close>

lemma run_result:
  assumes "execute input_data w = (Inr result, w')"
  shows "run name execute input_data w =
           (dict_set (dict_set result ''agent_name'' (JStr name)) ''success'' (JBool True), w')"
  using assms by (simp add: run_def)

lemma run_error:
  assumes "execute input_data w = (Inl x, w')"
  shows "run name execute input_data w =
           ([(''agent_name'', JStr name), (''success'', JBool False),
             (''error'', JStr (exc_msg x)), (''error_type'', JStr (exc_type x))], w')"
  using assms by (simp add: run_def)

lemma optimizer_execute_reached:
  assumes "py_ge_int (dict_get_or inp ''ats_score'' (JInt 0)) (ATS_TARGET_SCORE st) = Inr True"
  shows "optimizer_execute st e inp w =
     (Inr [(''should_continue'', JBool False),
           (''final_resume'', dict_get inp ''resume_content''),
           (''final_score'', dict_get_or inp ''ats_score'' (JInt 0)),
           (''total_iterations'', dict_get_or inp ''iteration'' (JInt 1))], w)"
  using assms by (simp add: optimizer_execute_def Let_def)

lemma optimizer_execute_type_error:
  assumes "py_ge_int (dict_get_or inp ''ats_score'' (JInt 0)) (ATS_TARGET_SCORE st) = Inr False"
      and "py_ge_int (dict_get_or inp ''iteration'' (JInt 1)) (MAX_OPTIMIZATION_ITERATIONS st) = Inr False"
  shows "optimizer_execute st e inp w = (Inl arity_error, w)"
  using assms by (simp add: optimizer_execute_def call_optimize_resume_def Let_def)

lemma optimizer_run_reached:
  assumes "py_ge_int (dict_get_or inp ''ats_score'' (JInt 0)) (ATS_TARGET_SCORE st) = Inr True"
  shows "optimizer_agent_run st e inp w =
     ([(''should_continue'', JBool False),
       (''final_resume'', dict_get inp ''resume_content''),
       (''final_score'', dict_get_or inp ''ats_score'' (JInt 0)),
       (''total_iterations'', dict_get_or inp ''iteration'' (JInt 1)),
       (''agent_name'', JStr ''Optimizer''),
       (''success'', JBool True)], w)"
  unfolding optimizer_agent_run_def
  using optimizer_execute_reached [OF assms, of e w]
  by (simp add: run_def dict_set_def)

lemma optimizer_run_type_error:
  assumes "py_ge_int (dict_get_or inp ''ats_score'' (JInt 0)) (ATS_TARGET_SCORE st) = Inr False"
      and "py_ge_int (dict_get_or inp ''iteration'' (JInt 1)) (MAX_OPTIMIZATION_ITERATIONS st) = Inr False"
  shows "optimizer_agent_run st e inp w =
     ([(''agent_name'', JStr ''Optimizer''),
       (''success'', JBool False),
       (''error'', JStr (exc_msg arity_error)),
       (''error_type'', JStr ''TypeError'')], w)"
  unfolding optimizer_agent_run_def
  using optimizer_execute_type_error [OF assms, of e w]
  by (simp add: run_def arity_error_def)

lemma loop_step_stop:
  assumes "ats_scorer_agent_run e (scorer_input rc job) w0 = (sr, w1)"
      and "py_truthy (dict_get sr ''success'')"
      and "optimizer_agent_run st e (optimizer_input rc sr i h) w1 = (r, w2)"
      and "\<not> py_truthy (dict_get r ''should_continue'')"
  shows "optimization_loop st e job (i # rest) rc h w0 = (Inr (rc, h), w2)"
  using assms by simp

lemma loop_step_scoring_failed:
  assumes "ats_scorer_agent_run e (scorer_input rc job) w0 = (sr, w1)"
      and "\<not> py_truthy (dict_get sr ''success'')"
  shows "optimization_loop st e job (i # rest) rc h w0 = (Inr (rc, h), w1)"
  using assms by simp

lemma example_scoring_60:
  "ats_scorer_agent_run (example_env (\<lambda>n. Inr reply_score_60) outcome)
       (scorer_input example_resume example_job) fresh_world =
     ([(''ats_score'', JInt 60), (''keyword_matches'', JList []),
       (''missing_keywords'', JList []), (''suggestions'', JList []),
       (''agent_name'', JStr ''ATS_Scorer''), (''success'', JBool True)],
      \<lparr>llm_calls = 1, http_calls = 0, revisions = 0, score_runs = 1\<rparr>)"
  by (simp add: ats_scorer_agent_run_def run_def ats_scorer_execute_def scorer_input_def
      dict_get_def dict_get_or_def dict_set_def example_resume_def example_job_def
      calculate_ats_score_def ats_prompt_ok_def extract_json_def generate_text_def
      example_env_def fresh_world_def reply_score_60_def quoted_def brace_span_def
      example_loads_def reply_score_90_def reply_score_float_def reply_score_text_def
      reply_no_score_def reply_skills_def
      clamp_score_def py_min_100_def py_max_0_def py_lt_int_def py_gt_int_def Let_def)

lemma example_scoring_90:
  "ats_scorer_agent_run (example_env (\<lambda>n. Inr reply_score_90) outcome)
       (scorer_input example_resume example_job) fresh_world =
     ([(''ats_score'', JInt 90), (''keyword_matches'', JList []),
       (''missing_keywords'', JList []), (''suggestions'', JList []),
       (''agent_name'', JStr ''ATS_Scorer''), (''success'', JBool True)],
      \<lparr>llm_calls = 1, http_calls = 0, revisions = 0, score_runs = 1\<rparr>)"
  by (simp add: ats_scorer_agent_run_def run_def ats_scorer_execute_def scorer_input_def
      dict_get_def dict_get_or_def dict_set_def example_resume_def example_job_def
      calculate_ats_score_def ats_prompt_ok_def extract_json_def generate_text_def
      example_env_def fresh_world_def reply_score_60_def quoted_def brace_span_def
      example_loads_def reply_score_90_def reply_score_float_def reply_score_text_def
      reply_no_score_def reply_skills_def
      clamp_score_def py_min_100_def py_max_0_def py_lt_int_def py_gt_int_def Let_def)


section \<open>Claims about the optimization loop\<close>

text \<open>
  Claim C10. Whenever the optimizer is invoked with a score below the target and an
  iteration below the cap, the revision call passes three arguments to a method of two
  parameters: the run of the stage returns the error envelope of that TypeError, with
  \<^verbatim>\<open>success = False\<close> and no \<^verbatim>\<open>should_continue\<close> key, the state is untouched (no
  revision was made), and a loop that made this invocation stops there with the resume
  and the history it had.
\<close>

theorem optimizer_below_target_fails_with_type_error:
  assumes below: "py_ge_int (dict_get_or inp ''ats_score'' (JInt 0)) (ATS_TARGET_SCORE st) = Inr False"
      and under_cap: "py_ge_int (dict_get_or inp ''iteration'' (JInt 1)) (MAX_OPTIMIZATION_ITERATIONS st) = Inr False"
  shows "optimizer_agent_run st e inp w =
           ([(''agent_name'', JStr ''Optimizer''),
             (''success'', JBool False),
             (''error'', JStr (exc_msg arity_error)),
             (''error_type'', JStr ''TypeError'')], w)
       \<and> map_of (fst (optimizer_agent_run st e inp w)) ''should_continue'' = None
       \<and> (\<forall>job rc h i rest w0 sr.
             ats_scorer_agent_run e (scorer_input rc job) w0 = (sr, w)
             \<and> py_truthy (dict_get sr ''success'')
             \<and> inp = optimizer_input rc sr i h
             \<longrightarrow> optimization_loop st e job (i # rest) rc h w0 = (Inr (rc, h), w))"
proof -
  have envelope: "optimizer_agent_run st e inp w =
           ([(''agent_name'', JStr ''Optimizer''),
             (''success'', JBool False),
             (''error'', JStr (exc_msg arity_error)),
             (''error_type'', JStr ''TypeError'')], w)"
    by (rule optimizer_run_type_error [OF below under_cap])
  have no_key: "map_of (fst (optimizer_agent_run st e inp w)) ''should_continue'' = None"
    by (simp add: envelope)
  have stops: "optimization_loop st e job (i # rest) rc h w0 = (Inr (rc, h), w)"
    if "ats_scorer_agent_run e (scorer_input rc job) w0 = (sr, w)"
      and "py_truthy (dict_get sr ''success'')"
      and "inp = optimizer_input rc sr i h"
    for job rc h i rest w0 sr
  proof (rule loop_step_stop [OF that(1) that(2)])
    show "optimizer_agent_run st e (optimizer_input rc sr i h) w =
           ([(''agent_name'', JStr ''Optimizer''),
             (''success'', JBool False),
             (''error'', JStr (exc_msg arity_error)),
             (''error_type'', JStr ''TypeError'')], w)"
      using envelope that(3) by simp
    show "\<not> py_truthy (dict_get [(''agent_name'', JStr ''Optimizer''),
             (''success'', JBool False),
             (''error'', JStr (exc_msg arity_error)),
             (''error_type'', JStr ''TypeError'')] ''should_continue'')"
      by (simp add: dict_get_def)
  qed
  from envelope no_key stops show ?thesis by blast
qed

theorem optimizer_below_target_fails_with_type_error_witness:
  "optimizer_agent_run default_settings (example_env (\<lambda>n. Inr reply_score_60) (ConnectError []))
       (optimizer_input example_resume
          [(''ats_score'', JInt 60), (''keyword_matches'', JList []),
           (''missing_keywords'', JList []), (''suggestions'', JList []),
           (''agent_name'', JStr ''ATS_Scorer''), (''success'', JBool True)] 1 (JList []))
       \<lparr>llm_calls = 1, http_calls = 0, revisions = 0, score_runs = 1\<rparr> =
     ([(''agent_name'', JStr ''Optimizer''),
       (''success'', JBool False),
       (''error'', JStr (exc_msg arity_error)),
       (''error_type'', JStr ''TypeError'')],
      \<lparr>llm_calls = 1, http_calls = 0, revisions = 0, score_runs = 1\<rparr>)
   \<and> optimization_loop default_settings (example_env (\<lambda>n. Inr reply_score_60) (ConnectError []))
         example_job [1, 2, 3, 4, 5] example_resume (JList []) fresh_world =
       (Inr (example_resume, JList []),
        \<lparr>llm_calls = 1, http_calls = 0, revisions = 0, score_runs = 1\<rparr>)"
proof -
  let ?e = "example_env (\<lambda>n. Inr reply_score_60) (ConnectError [])"
  let ?sr = "[(''ats_score'', JInt 60), (''keyword_matches'', JList []),
           (''missing_keywords'', JList []), (''suggestions'', JList []),
           (''agent_name'', JStr ''ATS_Scorer''), (''success'', JBool True)]"
  let ?w = "\<lparr>llm_calls = 1, http_calls = 0, revisions = 0, score_runs = 1\<rparr>"
  let ?inp = "optimizer_input example_resume ?sr 1 (JList [])"
  have below: "py_ge_int (dict_get_or ?inp ''ats_score'' (JInt 0))
                 (ATS_TARGET_SCORE default_settings) = Inr False"
    by (simp add: optimizer_input_def dict_get_or_def default_settings_def py_ge_int_def)
  have under_cap: "py_ge_int (dict_get_or ?inp ''iteration'' (JInt 1))
                 (MAX_OPTIMIZATION_ITERATIONS default_settings) = Inr False"
    by (simp add: optimizer_input_def dict_get_or_def default_settings_def py_ge_int_def)
  have scored: "ats_scorer_agent_run ?e (scorer_input example_resume example_job) fresh_world
                  = (?sr, ?w)"
    by (rule example_scoring_60)
  have ok: "py_truthy (dict_get ?sr ''success'')"
    by (simp add: dict_get_def)
  note main = optimizer_below_target_fails_with_type_error [OF below under_cap, of ?e ?w]
  from main have "optimizer_agent_run default_settings ?e ?inp ?w =
           ([(''agent_name'', JStr ''Optimizer''),
             (''success'', JBool False),
             (''error'', JStr (exc_msg arity_error)),
             (''error_type'', JStr ''TypeError'')], ?w)"
    by blast
  moreover from main scored ok
  have "optimization_loop default_settings ?e example_job (1 # [2, 3, 4, 5]) example_resume
          (JList []) fresh_world = (Inr (example_resume, JList []), ?w)"
    by blast
  ultimately show ?thesis by simp
qed

text \<open>
  Claim C1. Whenever the score handed to the optimizer is at least the target score,
  the run of the stage returns \<^verbatim>\<open>should_continue = False\<close> with the current resume as
  \<^verbatim>\<open>final_resume\<close>, that score as \<^verbatim>\<open>final_score\<close> and the iteration of the call as
  \<^verbatim>\<open>total_iterations\<close>; the state is untouched, so no revision is made and the provider
  is not asked; and a loop that made this invocation stops there with the resume and
  the history it had.
\<close>

theorem target_reached_stops_without_revision:
  assumes reached: "py_ge_int (dict_get_or inp ''ats_score'' (JInt 0)) (ATS_TARGET_SCORE st) = Inr True"
  shows "optimizer_agent_run st e inp w =
           ([(''should_continue'', JBool False),
             (''final_resume'', dict_get inp ''resume_content''),
             (''final_score'', dict_get_or inp ''ats_score'' (JInt 0)),
             (''total_iterations'', dict_get_or inp ''iteration'' (JInt 1)),
             (''agent_name'', JStr ''Optimizer''),
             (''success'', JBool True)], w)
       \<and> (\<forall>job rc h i rest w0 sr.
             ats_scorer_agent_run e (scorer_input rc job) w0 = (sr, w)
             \<and> py_truthy (dict_get sr ''success'')
             \<and> inp = optimizer_input rc sr i h
             \<longrightarrow> optimization_loop st e job (i # rest) rc h w0 = (Inr (rc, h), w)
                 \<and> dict_get (fst (optimizer_agent_run st e inp w)) ''final_resume'' = rc
                 \<and> dict_get (fst (optimizer_agent_run st e inp w)) ''total_iterations'' = JInt i)"
proof -
  let ?r = "[(''should_continue'', JBool False),
             (''final_resume'', dict_get inp ''resume_content''),
             (''final_score'', dict_get_or inp ''ats_score'' (JInt 0)),
             (''total_iterations'', dict_get_or inp ''iteration'' (JInt 1)),
             (''agent_name'', JStr ''Optimizer''),
             (''success'', JBool True)]"
  have result: "optimizer_agent_run st e inp w = (?r, w)"
    by (rule optimizer_run_reached [OF reached])
  have stops: "optimization_loop st e job (i # rest) rc h w0 = (Inr (rc, h), w)
                 \<and> dict_get (fst (optimizer_agent_run st e inp w)) ''final_resume'' = rc
                 \<and> dict_get (fst (optimizer_agent_run st e inp w)) ''total_iterations'' = JInt i"
    if "ats_scorer_agent_run e (scorer_input rc job) w0 = (sr, w)"
      and "py_truthy (dict_get sr ''success'')"
      and "inp = optimizer_input rc sr i h"
    for job rc h i rest w0 sr
  proof -
    have "optimizer_agent_run st e (optimizer_input rc sr i h) w = (?r, w)"
      using result that(3) by simp
    moreover have "\<not> py_truthy (dict_get ?r ''should_continue'')"
      by (simp add: dict_get_def)
    ultimately have "optimization_loop st e job (i # rest) rc h w0 = (Inr (rc, h), w)"
      by (rule loop_step_stop [OF that(1) that(2)])
    moreover have "dict_get (fst (optimizer_agent_run st e inp w)) ''final_resume'' = rc"
      unfolding result by (simp add: that(3) dict_get_def optimizer_input_def)
    moreover have "dict_get (fst (optimizer_agent_run st e inp w)) ''total_iterations'' = JInt i"
      unfolding result by (simp add: that(3) dict_get_def dict_get_or_def optimizer_input_def)
    ultimately show ?thesis by simp
  qed
  from result stops show ?thesis by blast
qed

theorem target_reached_stops_without_revision_witness:
  "optimizer_agent_run default_settings (example_env (\<lambda>n. Inr reply_score_90) (ConnectError []))
       (optimizer_input example_resume
          [(''ats_score'', JInt 90), (''keyword_matches'', JList []),
           (''missing_keywords'', JList []), (''suggestions'', JList []),
           (''agent_name'', JStr ''ATS_Scorer''), (''success'', JBool True)] 1 (JList []))
       \<lparr>llm_calls = 1, http_calls = 0, revisions = 0, score_runs = 1\<rparr> =
     ([(''should_continue'', JBool False),
       (''final_resume'', example_resume),
       (''final_score'', JInt 90),
       (''total_iterations'', JInt 1),
       (''agent_name'', JStr ''Optimizer''),
       (''success'', JBool True)],
      \<lparr>llm_calls = 1, http_calls = 0, revisions = 0, score_runs = 1\<rparr>)
   \<and> optimization_loop default_settings (example_env (\<lambda>n. Inr reply_score_90) (ConnectError []))
         example_job [1, 2, 3, 4, 5] example_resume (JList []) fresh_world =
       (Inr (example_resume, JList []),
        \<lparr>llm_calls = 1, http_calls = 0, revisions = 0, score_runs = 1\<rparr>)"
proof -
  let ?e = "example_env (\<lambda>n. Inr reply_score_90) (ConnectError [])"
  let ?sr = "[(''ats_score'', JInt 90), (''keyword_matches'', JList []),
           (''missing_keywords'', JList []), (''suggestions'', JList []),
           (''agent_name'', JStr ''ATS_Scorer''), (''success'', JBool True)]"
  let ?w = "\<lparr>llm_calls = 1, http_calls = 0, revisions = 0, score_runs = 1\<rparr>"
  let ?inp = "optimizer_input example_resume ?sr 1 (JList [])"
  have reached: "py_ge_int (dict_get_or ?inp ''ats_score'' (JInt 0))
                 (ATS_TARGET_SCORE default_settings) = Inr True"
    by (simp add: optimizer_input_def dict_get_or_def default_settings_def py_ge_int_def)
  have scored: "ats_scorer_agent_run ?e (scorer_input example_resume example_job) fresh_world
                  = (?sr, ?w)"
    by (rule example_scoring_90)
  have ok: "py_truthy (dict_get ?sr ''success'')"
    by (simp add: dict_get_def)
  note main = target_reached_stops_without_revision [OF reached, of ?e ?w]
  from main have "optimizer_agent_run default_settings ?e ?inp ?w =
           ([(''should_continue'', JBool False),
             (''final_resume'', dict_get ?inp ''resume_content''),
             (''final_score'', dict_get_or ?inp ''ats_score'' (JInt 0)),
             (''total_iterations'', dict_get_or ?inp ''iteration'' (JInt 1)),
             (''agent_name'', JStr ''Optimizer''),
             (''success'', JBool True)], ?w)"
    by blast
  moreover from main scored ok
  have "optimization_loop default_settings ?e example_job (1 # [2, 3, 4, 5]) example_resume
          (JList []) fresh_world = (Inr (example_resume, JList []), ?w)"
    by blast
  ultimately show ?thesis
    by (simp add: optimizer_input_def dict_get_def dict_get_or_def)
qed

section \<open>The loop when a stage fails\<close>

lemma generate_text_revisions:
  "revisions (snd (generate_text e w)) = revisions w"
  by (simp add: generate_text_def Let_def split: sum.splits)

lemma extract_json_revisions:
  "revisions (snd (extract_json e w)) = revisions w"
proof -
  obtain r w' where g: "generate_text e w = (r, w')"
    by (cases "generate_text e w")
  with generate_text_revisions [of e w] have "revisions w' = revisions w"
    by simp
  with g show ?thesis
    by (simp add: extract_json_def split: sum.splits option.splits)
qed

lemma calculate_ats_score_revisions:
  "revisions (snd (calculate_ats_score e rc job w)) = revisions w"
proof -
  obtain r w' where x: "extract_json e w = (r, w')"
    by (cases "extract_json e w")
  with extract_json_revisions [of e w] have "revisions w' = revisions w"
    by simp
  with x show ?thesis
    by (simp add: calculate_ats_score_def split: jval.splits option.splits sum.splits)
qed

lemma ats_scorer_execute_revisions:
  "revisions (snd (ats_scorer_execute e inp w)) = revisions w"
proof -
  let ?rc = "dict_get inp ''resume_content''" and ?job = "dict_get inp ''job_data''"
  obtain r w' where c: "calculate_ats_score e ?rc ?job w = (r, w')"
    by (cases "calculate_ats_score e ?rc ?job w")
  with calculate_ats_score_revisions [of e ?rc ?job w] have "revisions w' = revisions w"
    by simp
  with c show ?thesis
    by (simp add: ats_scorer_execute_def Let_def split: sum.splits)
qed

lemma run_snd:
  "snd (run name execute inp w) = snd (execute inp w)"
  by (simp add: run_def split: prod.splits sum.splits)

lemma ats_scorer_agent_run_revisions:
  "revisions (snd (ats_scorer_agent_run e inp w)) = revisions w"
  by (simp add: ats_scorer_agent_run_def run_snd ats_scorer_execute_revisions)

lemma example_scoring_text:
  "ats_scorer_agent_run (example_env (\<lambda>n. Inr reply_score_text) outcome)
       (scorer_input example_resume example_job) fresh_world =
     ([(''agent_name'', JStr ''ATS_Scorer''), (''success'', JBool False),
       (''error'', JStr (exc_msg cmp_error)), (''error_type'', JStr ''TypeError'')],
      \<lparr>llm_calls = 1, http_calls = 0, revisions = 0, score_runs = 1\<rparr>)"
  by (simp add: ats_scorer_agent_run_def run_def ats_scorer_execute_def scorer_input_def
      dict_get_def dict_get_or_def dict_set_def example_resume_def example_job_def
      calculate_ats_score_def ats_prompt_ok_def extract_json_def generate_text_def
      example_env_def fresh_world_def reply_score_60_def quoted_def brace_span_def
      example_loads_def reply_score_90_def reply_score_float_def reply_score_text_def
      reply_no_score_def reply_skills_def cmp_error_def
      clamp_score_def py_min_100_def py_max_0_def py_lt_int_def py_gt_int_def Let_def)

text \<open>
  Claim C8. When the scoring stage fails on an iteration (its run returns an envelope
  whose \<^verbatim>\<open>success\<close> is not truthy), the loop leaves at once with the resume and the
  history it held before that scoring call, no revision is made, and the run goes on to
  the final scoring and returns a row whose \<^verbatim>\<open>latex_content\<close> is that resume; when
  this happens in the first iteration the generated resume is what is returned.
\<close>

theorem scoring_failure_keeps_last_artifact:
  assumes scored: "ats_scorer_agent_run e (scorer_input rc job) w = (sr, w1)"
      and failure: "\<not> py_truthy (dict_get sr ''success'')"
      and history: "h = JList hs"
  shows "optimization_loop st e job (i # rest) rc h w = (Inr (rc, h), w1)
       \<and> revisions w1 = revisions w
       \<and> (\<exists>row w2. finish_resume e job rc h w1 = (Inr row, w2)
             \<and> latex_content row = rc
             \<and> optimization_history row = h
             \<and> iterations row = int (length hs) + 1
             \<and> revisions w2 = revisions w)
       \<and> generate_resume_from st e job rc w = finish_resume e job rc (JList []) w1"
proof -
  have stop: "optimization_loop st e job (i # rest) rc h w = (Inr (rc, h), w1)"
    by (rule loop_step_scoring_failed [OF scored failure])
  have rev1: "revisions w1 = revisions w"
    using ats_scorer_agent_run_revisions [of e "scorer_input rc job" w] scored by simp
  obtain fr w2 where final: "ats_scorer_agent_run e (scorer_input rc job) w1 = (fr, w2)"
    by (cases "ats_scorer_agent_run e (scorer_input rc job) w1")
  have rev2: "revisions w2 = revisions w"
    using ats_scorer_agent_run_revisions [of e "scorer_input rc job" w1] final rev1 by simp
  have row: "\<exists>row w2. finish_resume e job rc h w1 = (Inr row, w2)
             \<and> latex_content row = rc
             \<and> optimization_history row = h
             \<and> iterations row = int (length hs) + 1
             \<and> revisions w2 = revisions w"
    using final rev2 history by (simp add: finish_resume_def Let_def)
  have whole: "generate_resume_from st e job rc w = finish_resume e job rc (JList []) w1"
    using loop_step_scoring_failed
            [OF scored failure, where st = st and i = 1 and rest = "[2, 3, 4, 5]" and h = "JList []"]
    by (simp add: generate_resume_from_def)
  from stop rev1 row whole show ?thesis by blast
qed

theorem scoring_failure_keeps_last_artifact_witness:
  "optimization_loop default_settings (example_env (\<lambda>n. Inr reply_score_text) (ConnectError []))
       example_job (1 # [2, 3, 4, 5]) example_resume (JList []) fresh_world =
     (Inr (example_resume, JList []),
      \<lparr>llm_calls = 1, http_calls = 0, revisions = 0, score_runs = 1\<rparr>)
   \<and> revisions \<lparr>llm_calls = 1, http_calls = 0, revisions = 0, score_runs = 1\<rparr>
       = revisions fresh_world
   \<and> (\<exists>row w2. finish_resume (example_env (\<lambda>n. Inr reply_score_text) (ConnectError []))
           example_job example_resume (JList [])
           \<lparr>llm_calls = 1, http_calls = 0, revisions = 0, score_runs = 1\<rparr> = (Inr row, w2)
         \<and> latex_content row = example_resume
         \<and> optimization_history row = JList []
         \<and> iterations row = int (length ([] :: jval list)) + 1
         \<and> revisions w2 = revisions fresh_world)
   \<and> generate_resume_from default_settings
         (example_env (\<lambda>n. Inr reply_score_text) (ConnectError []))
         example_job example_resume fresh_world =
       finish_resume (example_env (\<lambda>n. Inr reply_score_text) (ConnectError []))
         example_job example_resume (JList [])
         \<lparr>llm_calls = 1, http_calls = 0, revisions = 0, score_runs = 1\<rparr>"
proof -
  let ?e = "example_env (\<lambda>n. Inr reply_score_text) (ConnectError [])"
  let ?sr = "[(''agent_name'', JStr ''ATS_Scorer''), (''success'', JBool False),
       (''error'', JStr (exc_msg cmp_error)), (''error_type'', JStr ''TypeError'')]"
  let ?w1 = "\<lparr>llm_calls = 1, http_calls = 0, revisions = 0, score_runs = 1\<rparr>"
  have scored: "ats_scorer_agent_run ?e (scorer_input example_resume example_job) fresh_world
                  = (?sr, ?w1)"
    by (rule example_scoring_text)
  have failure: "\<not> py_truthy (dict_get ?sr ''success'')"
    by (simp add: dict_get_def)
  have history: "JList [] = JList []"
    by simp
  show ?thesis
    by (rule scoring_failure_keeps_last_artifact [OF scored failure history])
qed

lemma example_scoring_60_any:
  "ats_scorer_agent_run (example_env (\<lambda>n. Inr reply_score_60) outcome)
       (scorer_input example_resume example_job) w =
     ([(''ats_score'', JInt 60), (''keyword_matches'', JList []),
       (''missing_keywords'', JList []), (''suggestions'', JList []),
       (''agent_name'', JStr ''ATS_Scorer''), (''success'', JBool True)],
      \<lparr>llm_calls = Suc (llm_calls w), http_calls = http_calls w,
       revisions = revisions w, score_runs = Suc (score_runs w)\<rparr>)"
  by (cases w)
     (simp add: ats_scorer_agent_run_def run_def ats_scorer_execute_def scorer_input_def
      dict_get_def dict_get_or_def dict_set_def example_resume_def example_job_def
      calculate_ats_score_def ats_prompt_ok_def extract_json_def generate_text_def
      example_env_def reply_score_60_def quoted_def brace_span_def
      example_loads_def reply_score_90_def reply_score_float_def reply_score_text_def
      reply_no_score_def reply_skills_def
      clamp_score_def py_min_100_def py_max_0_def py_lt_int_def py_gt_int_def Let_def)

lemma example_loop_60:
  "optimization_loop default_settings (example_env (\<lambda>n. Inr reply_score_60) outcome)
       example_job (1 # rest) example_resume (JList []) fresh_world =
     (Inr (example_resume, JList []),
      \<lparr>llm_calls = 1, http_calls = 0, revisions = 0, score_runs = 1\<rparr>)"
proof -
  let ?e = "example_env (\<lambda>n. Inr reply_score_60) outcome"
  let ?sr = "[(''ats_score'', JInt 60), (''keyword_matches'', JList []),
       (''missing_keywords'', JList []), (''suggestions'', JList []),
       (''agent_name'', JStr ''ATS_Scorer''), (''success'', JBool True)]"
  let ?w1 = "\<lparr>llm_calls = 1, http_calls = 0, revisions = 0, score_runs = 1\<rparr>"
  let ?inp = "optimizer_input example_resume ?sr 1 (JList [])"
  have scored: "ats_scorer_agent_run ?e (scorer_input example_resume example_job) fresh_world
                  = (?sr, ?w1)"
    by (rule example_scoring_60)
  have ok: "py_truthy (dict_get ?sr ''success'')"
    by (simp add: dict_get_def)
  have below: "py_ge_int (dict_get_or ?inp ''ats_score'' (JInt 0))
                 (ATS_TARGET_SCORE default_settings) = Inr False"
    by (simp add: optimizer_input_def dict_get_or_def default_settings_def py_ge_int_def)
  have under_cap: "py_ge_int (dict_get_or ?inp ''iteration'' (JInt 1))
                 (MAX_OPTIMIZATION_ITERATIONS default_settings) = Inr False"
    by (simp add: optimizer_input_def dict_get_or_def default_settings_def py_ge_int_def)
  note opt = optimizer_run_type_error [OF below under_cap, of ?e ?w1]
  show ?thesis
    by (rule loop_step_stop [OF scored ok opt]) (simp add: dict_get_def)
qed

text \<open>
  Claim C2, at an input where the code departs from it. With the default settings and
  a scorer that answers 60 every time, no collaborator fails, yet the run makes one
  scoring run inside the loop (two with the final one), no revision, leaves the loop in
  iteration 1 through the error envelope of the optimizer stage, which carries no note,
  and reports one iteration.
\<close>

theorem below_target_run_ends_in_first_iteration:
  "generate_resume_from default_settings (example_env (\<lambda>n. Inr reply_score_60) (ConnectError []))
       example_job example_resume fresh_world =
     (Inr \<lparr>latex_content = example_resume, ats_score = JInt 60, iterations = 1,
           keywords_col = JList [], optimization_history = JList []\<rparr>,
      \<lparr>llm_calls = 2, http_calls = 0, revisions = 0, score_runs = 2\<rparr>)
   \<and> optimization_loop default_settings (example_env (\<lambda>n. Inr reply_score_60) (ConnectError []))
         example_job [1, 2, 3, 4, 5] example_resume (JList []) fresh_world =
       (Inr (example_resume, JList []),
        \<lparr>llm_calls = 1, http_calls = 0, revisions = 0, score_runs = 1\<rparr>)
   \<and> map_of (fst (optimizer_agent_run default_settings
               (example_env (\<lambda>n. Inr reply_score_60) (ConnectError []))
               (optimizer_input example_resume
                  [(''ats_score'', JInt 60), (''keyword_matches'', JList []),
                   (''missing_keywords'', JList []), (''suggestions'', JList []),
                   (''agent_name'', JStr ''ATS_Scorer''), (''success'', JBool True)] 1 (JList []))
               \<lparr>llm_calls = 1, http_calls = 0, revisions = 0, score_runs = 1\<rparr>)) ''note'' = None"
proof -
  let ?e = "example_env (\<lambda>n. Inr reply_score_60) (ConnectError [])"
  let ?sr = "[(''ats_score'', JInt 60), (''keyword_matches'', JList []),
       (''missing_keywords'', JList []), (''suggestions'', JList []),
       (''agent_name'', JStr ''ATS_Scorer''), (''success'', JBool True)]"
  let ?w1 = "\<lparr>llm_calls = 1, http_calls = 0, revisions = 0, score_runs = 1\<rparr>"
  let ?inp = "optimizer_input example_resume ?sr 1 (JList [])"
  have loop: "optimization_loop default_settings ?e example_job [1, 2, 3, 4, 5]
                example_resume (JList []) fresh_world = (Inr (example_resume, JList []), ?w1)"
    by (rule example_loop_60)
  have final: "finish_resume ?e example_job example_resume (JList []) ?w1 =
     (Inr \<lparr>latex_content = example_resume, ats_score = JInt 60, iterations = 1,
           keywords_col = JList [], optimization_history = JList []\<rparr>,
      \<lparr>llm_calls = 2, http_calls = 0, revisions = 0, score_runs = 2\<rparr>)"
    by (simp add: finish_resume_def example_scoring_60_any dict_get_def dict_get_or_def)
  have whole: "generate_resume_from default_settings ?e example_job example_resume fresh_world =
     (Inr \<lparr>latex_content = example_resume, ats_score = JInt 60, iterations = 1,
           keywords_col = JList [], optimization_history = JList []\<rparr>,
      \<lparr>llm_calls = 2, http_calls = 0, revisions = 0, score_runs = 2\<rparr>)"
    using final unfolding generate_resume_from_def loop by simp
  have below: "py_ge_int (dict_get_or ?inp ''ats_score'' (JInt 0))
                 (ATS_TARGET_SCORE default_settings) = Inr False"
    by (simp add: optimizer_input_def dict_get_or_def default_settings_def py_ge_int_def)
  have under_cap: "py_ge_int (dict_get_or ?inp ''iteration'' (JInt 1))
                 (MAX_OPTIMIZATION_ITERATIONS default_settings) = Inr False"
    by (simp add: optimizer_input_def dict_get_or_def default_settings_def py_ge_int_def)
  have no_note: "map_of (fst (optimizer_agent_run default_settings ?e ?inp ?w1)) ''note'' = None"
    by (simp add: optimizer_run_type_error [OF below under_cap])
  from whole loop no_note show ?thesis by simp
qed

lemma example_scoring_then_prose:
  "ats_scorer_agent_run
       (example_env (\<lambda>n. if n = 0 then Inr reply_score_60 else Inr reply_prose) outcome)
       (scorer_input example_resume example_job) fresh_world =
     ([(''ats_score'', JInt 60), (''keyword_matches'', JList []),
       (''missing_keywords'', JList []), (''suggestions'', JList []),
       (''agent_name'', JStr ''ATS_Scorer''), (''success'', JBool True)],
      \<lparr>llm_calls = 1, http_calls = 0, revisions = 0, score_runs = 1\<rparr>)"
  by (simp add: ats_scorer_agent_run_def run_def ats_scorer_execute_def scorer_input_def
      dict_get_def dict_get_or_def dict_set_def example_resume_def example_job_def
      calculate_ats_score_def ats_prompt_ok_def extract_json_def generate_text_def
      example_env_def fresh_world_def reply_score_60_def quoted_def brace_span_def
      example_loads_def reply_score_90_def reply_score_float_def reply_score_text_def
      reply_no_score_def reply_skills_def
      clamp_score_def py_min_100_def py_max_0_def py_lt_int_def py_gt_int_def Let_def)

lemma example_prose_revision:
  "optimize_resume
       (example_env (\<lambda>n. if n = 0 then Inr reply_score_60 else Inr reply_prose) outcome)
       example_resume
       (JObj [(''score'', JInt 60), (''missing_keywords'', JList []), (''suggestions'', JList [])])
       \<lparr>llm_calls = 1, http_calls = 0, revisions = 0, score_runs = 1\<rparr> =
     (Inr example_resume, \<lparr>llm_calls = 2, http_calls = 0, revisions = 1, score_runs = 1\<rparr>)"
  by (simp add: optimize_resume_def optimize_prompt_ok_def dict_get_or_def generate_text_def
      example_env_def example_resume_def reply_prose_def py_strip_def py_isspace_def
      startswith_def Let_def)

text \<open>
  Claim C7, at an input where the code departs from it. The score is 60 in iteration 1
  and the provider would answer the revision request with prose that does not start
  with the document preamble. \<^verbatim>\<open>optimize_resume\<close>, called with its two declared
  arguments, does give the previous resume back for such a reply. The optimizer stage
  never gets there: its call raises TypeError, the envelope of the stage has neither an
  \<^verbatim>\<open>iteration\<close> nor an \<^verbatim>\<open>optimization_history\<close> entry, and the loop ends in
  iteration 1 with an empty history and no revision made.
\<close>

theorem invalid_revision_leaves_no_history_record:
  "optimize_resume
       (example_env (\<lambda>n. if n = 0 then Inr reply_score_60 else Inr reply_prose) (ConnectError []))
       example_resume
       (JObj [(''score'', JInt 60), (''missing_keywords'', JList []), (''suggestions'', JList [])])
       \<lparr>llm_calls = 1, http_calls = 0, revisions = 0, score_runs = 1\<rparr> =
     (Inr example_resume, \<lparr>llm_calls = 2, http_calls = 0, revisions = 1, score_runs = 1\<rparr>)
   \<and> optimizer_agent_run default_settings
         (example_env (\<lambda>n. if n = 0 then Inr reply_score_60 else Inr reply_prose) (ConnectError []))
         (optimizer_input example_resume
            [(''ats_score'', JInt 60), (''keyword_matches'', JList []),
             (''missing_keywords'', JList []), (''suggestions'', JList []),
             (''agent_name'', JStr ''ATS_Scorer''), (''success'', JBool True)] 1 (JList []))
         \<lparr>llm_calls = 1, http_calls = 0, revisions = 0, score_runs = 1\<rparr> =
       ([(''agent_name'', JStr ''Optimizer''),
         (''success'', JBool False),
         (''error'', JStr (exc_msg arity_error)),
         (''error_type'', JStr ''TypeError'')],
        \<lparr>llm_calls = 1, http_calls = 0, revisions = 0, score_runs = 1\<rparr>)
   \<and> optimization_loop default_settings
         (example_env (\<lambda>n. if n = 0 then Inr reply_score_60 else Inr reply_prose) (ConnectError []))
         example_job [1, 2, 3, 4, 5] example_resume (JList []) fresh_world =
       (Inr (example_resume, JList []),
        \<lparr>llm_calls = 1, http_calls = 0, revisions = 0, score_runs = 1\<rparr>)"
proof -
  let ?e = "example_env (\<lambda>n. if n = 0 then Inr reply_score_60 else Inr reply_prose)
              (ConnectError [])"
  let ?sr = "[(''ats_score'', JInt 60), (''keyword_matches'', JList []),
       (''missing_keywords'', JList []), (''suggestions'', JList []),
       (''agent_name'', JStr ''ATS_Scorer''), (''success'', JBool True)]"
  let ?w1 = "\<lparr>llm_calls = 1, http_calls = 0, revisions = 0, score_runs = 1\<rparr>"
  let ?inp = "optimizer_input example_resume ?sr 1 (JList [])"
  have scored: "ats_scorer_agent_run ?e (scorer_input example_resume example_job) fresh_world
                  = (?sr, ?w1)"
    by (rule example_scoring_then_prose)
  have ok: "py_truthy (dict_get ?sr ''success'')"
    by (simp add: dict_get_def)
  have below: "py_ge_int (dict_get_or ?inp ''ats_score'' (JInt 0))
                 (ATS_TARGET_SCORE default_settings) = Inr False"
    by (simp add: optimizer_input_def dict_get_or_def default_settings_def py_ge_int_def)
  have under_cap: "py_ge_int (dict_get_or ?inp ''iteration'' (JInt 1))
                 (MAX_OPTIMIZATION_ITERATIONS default_settings) = Inr False"
    by (simp add: optimizer_input_def dict_get_or_def default_settings_def py_ge_int_def)
  note opt = optimizer_run_type_error [OF below under_cap, of ?e ?w1]
  have loop: "optimization_loop default_settings ?e example_job (1 # [2, 3, 4, 5])
                example_resume (JList []) fresh_world = (Inr (example_resume, JList []), ?w1)"
    by (rule loop_step_stop [OF scored ok opt]) (simp add: dict_get_def)
  from example_prose_revision [of "ConnectError []"] opt loop show ?thesis
    by blast
qed

section \<open>Scores\<close>

lemma clamp_score_int:
  "clamp_score (JInt n) = Inr (JInt (max 0 (min 100 n)))"
  by (simp add: clamp_score_def py_min_100_def py_max_0_def py_lt_int_def py_gt_int_def
      max_def min_def)

lemma clamp_score_bounds:
  assumes "clamp_score v = Inr c"
  shows "\<exists>r. num_view c = Some (Finite r) \<and> 0 \<le> r \<and> r \<le> 100"
proof (cases v)
  case (JFloat f)
  with assms show ?thesis
    by (cases f)
       (auto simp: clamp_score_def py_min_100_def py_max_0_def py_lt_int_def py_gt_int_def
             split: if_splits)
qed (use assms in \<open>auto simp: clamp_score_def py_min_100_def py_max_0_def py_lt_int_def
       py_gt_int_def cmp_error_def split: if_splits\<close>)

lemma example_scoring_float:
  "ats_scorer_agent_run (example_env (\<lambda>n. Inr reply_score_float) outcome)
       (scorer_input example_resume example_job) fresh_world =
     ([(''ats_score'', JFloat (Finite (171 / 2))), (''keyword_matches'', JList []),
       (''missing_keywords'', JList []), (''suggestions'', JList []),
       (''agent_name'', JStr ''ATS_Scorer''), (''success'', JBool True)],
      \<lparr>llm_calls = 1, http_calls = 0, revisions = 0, score_runs = 1\<rparr>)"
  by (simp add: ats_scorer_agent_run_def run_def ats_scorer_execute_def scorer_input_def
      dict_get_def dict_get_or_def dict_set_def example_resume_def example_job_def
      calculate_ats_score_def ats_prompt_ok_def extract_json_def generate_text_def
      example_env_def fresh_world_def reply_score_60_def quoted_def brace_span_def
      example_loads_def reply_score_90_def reply_score_float_def reply_score_text_def
      reply_no_score_def reply_skills_def
      clamp_score_def py_min_100_def py_max_0_def py_lt_int_def py_gt_int_def Let_def)

lemma example_scoring_no_score:
  "ats_scorer_agent_run (example_env (\<lambda>n. Inr reply_no_score) outcome)
       (scorer_input example_resume example_job) fresh_world =
     ([(''ats_score'', JInt 50), (''keyword_matches'', JList []),
       (''missing_keywords'', JList []), (''suggestions'', JList []),
       (''agent_name'', JStr ''ATS_Scorer''), (''success'', JBool True)],
      \<lparr>llm_calls = 1, http_calls = 0, revisions = 0, score_runs = 1\<rparr>)"
  by (simp add: ats_scorer_agent_run_def run_def ats_scorer_execute_def scorer_input_def
      dict_get_def dict_get_or_def dict_set_def example_resume_def example_job_def
      calculate_ats_score_def ats_prompt_ok_def extract_json_def generate_text_def
      example_env_def fresh_world_def reply_score_60_def quoted_def brace_span_def
      example_loads_def reply_score_90_def reply_score_float_def reply_score_text_def
      reply_no_score_def reply_skills_def
      clamp_score_def py_min_100_def py_max_0_def py_lt_int_def py_gt_int_def Let_def)

lemma example_scoring_text_any:
  "ats_scorer_agent_run (example_env (\<lambda>n. Inr reply_score_text) outcome)
       (scorer_input example_resume example_job) w =
     ([(''agent_name'', JStr ''ATS_Scorer''), (''success'', JBool False),
       (''error'', JStr (exc_msg cmp_error)), (''error_type'', JStr ''TypeError'')],
      \<lparr>llm_calls = Suc (llm_calls w), http_calls = http_calls w,
       revisions = revisions w, score_runs = Suc (score_runs w)\<rparr>)"
  by (cases w)
     (simp add: ats_scorer_agent_run_def run_def ats_scorer_execute_def scorer_input_def
      dict_get_def dict_get_or_def dict_set_def example_resume_def example_job_def
      calculate_ats_score_def ats_prompt_ok_def extract_json_def generate_text_def
      example_env_def reply_score_60_def quoted_def brace_span_def
      example_loads_def reply_score_90_def reply_score_float_def reply_score_text_def
      reply_no_score_def reply_skills_def cmp_error_def
      clamp_score_def py_min_100_def py_max_0_def py_lt_int_def py_gt_int_def Let_def)

text \<open>
  Claim C9, at inputs where the code departs from it. A provider answer whose score is
  the number 85.5 is reported as 85.5: the clamp compares and never rounds, so the
  reported score is not an integer. And the values that stand in for a missing score
  differ: an answer with no score is reported as 50 by \<^verbatim>\<open>calculate_ats_score\<close>, while
  a scoring run that yields no score at all (here the provider's score is the text
  \<^verbatim>\<open>"high"\<close>, which cannot be compared) ends as a final score of 0 in the row that
  \<^verbatim>\<open>generate_resume\<close> returns.
\<close>

theorem score_not_integer_and_defaults_differ:
  "dict_get (fst (ats_scorer_agent_run
        (example_env (\<lambda>n. Inr reply_score_float) (ConnectError []))
        (scorer_input example_resume example_job) fresh_world)) ''ats_score''
     = JFloat (Finite (171 / 2))
   \<and> dict_get (fst (ats_scorer_agent_run
        (example_env (\<lambda>n. Inr reply_score_float) (ConnectError []))
        (scorer_input example_resume example_job) fresh_world)) ''success'' = JBool True
   \<and> dict_get (fst (ats_scorer_agent_run
        (example_env (\<lambda>n. Inr reply_no_score) (ConnectError []))
        (scorer_input example_resume example_job) fresh_world)) ''ats_score'' = JInt 50
   \<and> generate_resume_from default_settings
        (example_env (\<lambda>n. Inr reply_score_text) (ConnectError []))
        example_job example_resume fresh_world =
       (Inr \<lparr>latex_content = example_resume, ats_score = JInt 0, iterations = 1,
             keywords_col = JList [], optimization_history = JList []\<rparr>,
        \<lparr>llm_calls = 2, http_calls = 0, revisions = 0, score_runs = 2\<rparr>)"
proof -
  let ?e = "example_env (\<lambda>n. Inr reply_score_text) (ConnectError [])"
  let ?w1 = "\<lparr>llm_calls = 1, http_calls = 0, revisions = 0, score_runs = 1\<rparr>"
  have float_score: "dict_get (fst (ats_scorer_agent_run
        (example_env (\<lambda>n. Inr reply_score_float) (ConnectError []))
        (scorer_input example_resume example_job) fresh_world)) ''ats_score''
     = JFloat (Finite (171 / 2))"
    by (simp add: example_scoring_float dict_get_def)
  have float_ok: "dict_get (fst (ats_scorer_agent_run
        (example_env (\<lambda>n. Inr reply_score_float) (ConnectError []))
        (scorer_input example_resume example_job) fresh_world)) ''success'' = JBool True"
    by (simp add: example_scoring_float dict_get_def)
  have fifty: "dict_get (fst (ats_scorer_agent_run
        (example_env (\<lambda>n. Inr reply_no_score) (ConnectError []))
        (scorer_input example_resume example_job) fresh_world)) ''ats_score'' = JInt 50"
    by (simp add: example_scoring_no_score dict_get_def)
  have loop: "optimization_loop default_settings ?e example_job [1, 2, 3, 4, 5]
                example_resume (JList []) fresh_world = (Inr (example_resume, JList []), ?w1)"
    by (rule loop_step_scoring_failed [OF example_scoring_text]) (simp add: dict_get_def)
  have final: "finish_resume ?e example_job example_resume (JList []) ?w1 =
       (Inr \<lparr>latex_content = example_resume, ats_score = JInt 0, iterations = 1,
             keywords_col = JList [], optimization_history = JList []\<rparr>,
        \<lparr>llm_calls = 2, http_calls = 0, revisions = 0, score_runs = 2\<rparr>)"
    by (simp add: finish_resume_def example_scoring_text_any dict_get_def dict_get_or_def)
  have zero: "generate_resume_from default_settings ?e example_job example_resume fresh_world =
       (Inr \<lparr>latex_content = example_resume, ats_score = JInt 0, iterations = 1,
             keywords_col = JList [], optimization_history = JList []\<rparr>,
        \<lparr>llm_calls = 2, http_calls = 0, revisions = 0, score_runs = 2\<rparr>)"
    using final unfolding generate_resume_from_def loop by simp
  from float_score float_ok fifty zero show ?thesis by blast
qed

section \<open>Structuring a job description\<close>

lemma merge_results_lookup:
  assumes "distinct (map fst result)"
  shows "map_of (merge_results result dflt) k =
           (case map_of result k of
              Some v \<Rightarrow> if py_truthy v then Some v else map_of dflt k
            | None \<Rightarrow> map_of dflt k)"
  using assms
proof (induction result arbitrary: dflt)
  case Nil
  then show ?case by (simp add: merge_results_def)
next
  case (Cons entry rest)
  obtain key v where entry: "entry = (key, v)"
    by (cases entry)
  let ?d = "if py_truthy v then dict_set dflt key v else dflt"
  have step: "merge_results ((key, v) # rest) dflt = merge_results rest ?d"
    by (simp add: merge_results_def)
  have rest_distinct: "distinct (map fst rest)" and fresh: "key \<notin> fst ` set rest"
    using Cons.prems by (simp_all add: entry)
  have ih: "map_of (merge_results rest ?d) k =
           (case map_of rest k of
              Some v \<Rightarrow> if py_truthy v then Some v else map_of ?d k
            | None \<Rightarrow> map_of ?d k)"
    by (rule Cons.IH [OF rest_distinct])
  show ?case
  proof (cases "k = key")
    case True
    with fresh have "map_of rest k = None"
      by (simp add: map_of_eq_None_iff)
    with True ih show ?thesis
      unfolding entry step by (simp add: dict_set_def update_conv')
  next
    case False
    with ih show ?thesis
      unfolding entry step by (simp add: dict_set_def update_conv' split: option.splits)
  qed
qed

lemma example_extract_skills:
  "extract_json (example_env (\<lambda>n. Inr reply_skills) outcome) fresh_world =
     (JObj [(''job_title'', JStr []),
            (''skills_required'', JList [JStr ''Go'', JStr ''SQL''])],
      \<lparr>llm_calls = 1, http_calls = 0, revisions = 0, score_runs = 0\<rparr>)"
  by (simp add: extract_json_def generate_text_def
      example_env_def fresh_world_def reply_score_60_def quoted_def brace_span_def
      example_loads_def reply_score_90_def reply_score_float_def reply_score_text_def
      reply_no_score_def reply_skills_def Let_def)

text \<open>
  Claim C6. When the provider's structured answer is a dict, every entry of the
  structured job data is the answer's entry where the answer has a non-empty (truthy)
  value for that key, and the default entry otherwise, whether the key is missing from
  the answer or its value is empty. The keys of a dict are distinct.
\<close>

theorem structured_answer_overrides_defaults:
  assumes answer: "extract_json e w = (JObj result, w')"
      and keys: "distinct (map fst result)"
  shows "map_of (fst (structure_job_data e raw_text w)) k =
           (case map_of result k of
              Some v \<Rightarrow> if py_truthy v then Some v else map_of (default_result raw_text) k
            | None \<Rightarrow> map_of (default_result raw_text) k)"
proof -
  have "fst (structure_job_data e raw_text w) = merge_results result (default_result raw_text)"
    by (simp add: structure_job_data_def answer)
  then show ?thesis
    by (simp add: merge_results_lookup [OF keys])
qed

theorem structured_answer_overrides_defaults_witness:
  "map_of (fst (structure_job_data (example_env (\<lambda>n. Inr reply_skills) (ConnectError []))
                  ''Backend engineer wanted, Go and SQL.'' fresh_world)) ''requirements''
     = Some (JList [])
   \<and> map_of (fst (structure_job_data (example_env (\<lambda>n. Inr reply_skills) (ConnectError []))
                  ''Backend engineer wanted, Go and SQL.'' fresh_world)) ''skills_required''
     = Some (JList [JStr ''Go'', JStr ''SQL''])
   \<and> map_of (fst (structure_job_data (example_env (\<lambda>n. Inr reply_skills) (ConnectError []))
                  ''Backend engineer wanted, Go and SQL.'' fresh_world)) ''job_title''
     = Some (JStr ''Position'')"
proof -
  let ?e = "example_env (\<lambda>n. Inr reply_skills) (ConnectError [])"
  let ?result = "[(''job_title'', JStr []),
                  (''skills_required'', JList [JStr ''Go'', JStr ''SQL''])]"
  have answer: "extract_json ?e fresh_world =
                  (JObj ?result, \<lparr>llm_calls = 1, http_calls = 0, revisions = 0, score_runs = 0\<rparr>)"
    by (rule example_extract_skills)
  have keys: "distinct (map fst ?result)"
    by simp
  note main = structured_answer_overrides_defaults
                [OF answer keys, of "''Backend engineer wanted, Go and SQL.''"]
  from main [of "''requirements''"] main [of "''skills_required''"] main [of "''job_title''"]
  show ?thesis
    by (simp add: default_result_def)
qed

section \<open>Resolution of a job description\<close>

lemma generate_text_http:
  "http_calls (snd (generate_text e w)) = http_calls w"
  by (simp add: generate_text_def Let_def split: sum.splits)

lemma extract_json_http:
  "http_calls (snd (extract_json e w)) = http_calls w"
proof -
  obtain r w' where g: "generate_text e w = (r, w')"
    by (cases "generate_text e w")
  with generate_text_http [of e w] have "http_calls w' = http_calls w"
    by simp
  with g show ?thesis
    by (simp add: extract_json_def split: sum.splits option.splits)
qed

lemma structure_job_data_http:
  "http_calls (snd (structure_job_data e raw_text w)) = http_calls w"
proof -
  obtain r w' where x: "extract_json e w = (r, w')"
    by (cases "extract_json e w")
  with extract_json_http [of e w] have "http_calls w' = http_calls w"
    by simp
  with x show ?thesis
    by (simp add: structure_job_data_def split: jval.splits)
qed

lemma structure_and_override_http:
  "http_calls (snd (structure_and_override e job_text title company w)) = http_calls w"
proof -
  obtain d w' where s: "structure_job_data e job_text w = (d, w')"
    by (cases "structure_job_data e job_text w")
  with structure_job_data_http [of e job_text w] have "http_calls w' = http_calls w"
    by simp
  with s show ?thesis
    by (simp add: structure_and_override_def Let_def)
qed

lemma client_get_http:
  "http_calls (snd (client_get e url w)) = Suc (http_calls w)"
  by (simp add: client_get_def)

lemma fetch_linkedin_http:
  "http_calls (snd (fetch_linkedin e url w)) = Suc (http_calls w)"
  by (simp add: fetch_linkedin_def client_get_def split: http_outcome.splits)

lemma fetch_indeed_http:
  "http_calls (snd (fetch_indeed e url w)) = Suc (http_calls w)"
  by (simp add: fetch_indeed_def client_get_def split: http_outcome.splits)

lemma fetch_glassdoor_http:
  "http_calls (snd (fetch_glassdoor e url w)) = Suc (http_calls w)"
  by (simp add: fetch_glassdoor_def client_get_def split: http_outcome.splits)

lemma fetch_generic_http:
  "http_calls (snd (fetch_generic e url w)) = Suc (http_calls w)"
  by (simp add: fetch_generic_def client_get_def split: http_outcome.splits)

lemma fetch_job_from_url_http:
  "http_calls (snd (fetch_job_from_url e url w)) = Suc (http_calls w)"
proof -
  let ?f = "if str_contains url ''linkedin.com'' then fetch_linkedin e url w
            else if str_contains url ''indeed.com'' then fetch_indeed e url w
            else if str_contains url ''glassdoor.com'' then fetch_glassdoor e url w
            else fetch_generic e url w"
  obtain r w' where f: "?f = (r, w')"
    by (cases ?f)
  have "http_calls (snd ?f) = Suc (http_calls w)"
    by (simp add: fetch_linkedin_http fetch_indeed_http fetch_glassdoor_http fetch_generic_http)
  with f have "http_calls w' = Suc (http_calls w)"
    by simp
  with f show ?thesis
    by (simp add: fetch_job_from_url_def Let_def split: option.splits)
qed

lemma jd_extractor_execute_http:
  "http_calls (snd (jd_extractor_execute e inp w)) =
     (if job_url inp \<noteq> [] \<and> py_strip (job_url inp) \<noteq> [] then Suc (http_calls w)
      else http_calls w)"
proof (cases "job_url inp \<noteq> [] \<and> py_strip (job_url inp) \<noteq> []")
  case True
  obtain r w' where f: "fetch_job_from_url e (py_strip (job_url inp)) w = (r, w')"
    by (cases "fetch_job_from_url e (py_strip (job_url inp)) w")
  with fetch_job_from_url_http [of e "py_strip (job_url inp)" w]
  have "http_calls w' = Suc (http_calls w)"
    by simp
  with True f show ?thesis
    by (simp add: jd_extractor_execute_def structure_and_override_http)
next
  case False
  then show ?thesis
    by (auto simp add: jd_extractor_execute_def structure_and_override_http)
qed

text \<open>
  Claim C3 as stated fails: a request with a pasted text of far more than 20
  characters that are not whitespace, and a URL as well, makes a fetch.
\<close>

theorem usable_text_with_url_still_fetches:
  "20 \<le> non_whitespace_count example_posting_text
   \<and> http_calls fresh_world = 0
   \<and> http_calls (snd (jd_extractor_agent_run
         (example_env (\<lambda>n. Inr reply_skills) (Response 404 []))
         \<lparr>job_url = ''https://example.com/jobs/42'',
          job_description_text = example_posting_text,
          job_title = [], company_name = []\<rparr> fresh_world)) = 1"
  by (simp add: jd_extractor_agent_run_def run_snd jd_extractor_execute_http
      non_whitespace_count_def example_posting_text_def py_isspace_def py_strip_def
      fresh_world_def)

text \<open>
  Claim C3, amended. Whether resolution fetches depends on the URL alone: it makes no
  fetch when the URL is empty or only whitespace, and exactly one fetch when it is not,
  whatever the pasted text is.
\<close>

theorem fetch_exactly_when_url_given:
  "http_calls (snd (jd_extractor_agent_run e inp w)) =
     (if job_url inp \<noteq> [] \<and> py_strip (job_url inp) \<noteq> [] then Suc (http_calls w)
      else http_calls w)"
  by (simp add: jd_extractor_agent_run_def run_snd jd_extractor_execute_http)

theorem fetch_exactly_when_url_given_witness:
  "http_calls (snd (jd_extractor_agent_run
       (example_env (\<lambda>n. Inr reply_skills) (Response 404 []))
       \<lparr>job_url = ''   '',
        job_description_text = example_posting_text,
        job_title = [], company_name = []\<rparr> fresh_world)) = 0"
  using fetch_exactly_when_url_given
          [of "example_env (\<lambda>n. Inr reply_skills) (Response 404 [])"
              "\<lparr>job_url = ''   '', job_description_text = example_posting_text,
                job_title = [], company_name = []\<rparr>" fresh_world]
  by (simp add: py_strip_def py_isspace_def fresh_world_def)

lemma py_strip_Nil:
  "py_strip [] = []"
  by (simp add: py_strip_def)

lemma structure_and_override_short:
  assumes "length (py_strip job_text) < 20"
  shows "structure_and_override e job_text title company w = (Inl no_description, w)"
  using assms by (simp add: structure_and_override_def)

lemma structure_and_override_long:
  assumes "20 \<le> length (py_strip job_text)"
  shows "structure_and_override e job_text title company w =
     (Inr (let structured_data = fst (structure_job_data e job_text w);
               d1 = (if title \<noteq> [] then dict_set structured_data ''job_title'' (JStr title)
                     else structured_data)
           in if company \<noteq> [] then dict_set d1 ''company_name'' (JStr company) else d1),
      snd (structure_job_data e job_text w))"
proof -
  from assms have "job_text \<noteq> []"
    by (auto simp: py_strip_Nil)
  with assms show ?thesis
    by (simp add: structure_and_override_def Let_def split: prod.splits)
qed

lemma run_success_flag:
  "dict_get (fst (run name execute inp w)) ''success'' =
     JBool (case fst (execute inp w) of Inl x \<Rightarrow> False | Inr d \<Rightarrow> True)"
  by (simp add: run_def dict_get_def dict_set_def update_conv' split: prod.splits sum.splits)

text \<open>
  Claim C5 as stated fails twice. A pasted text of 11 characters that are not
  whitespace, spread over 21 characters, is accepted without a URL: the guard measures
  the stripped length. And a usable pasted text does not save a request whose URL of an
  unknown host cannot be fetched: resolution fails although the condition of the claim
  (no URL and no usable text) does not hold.
\<close>

theorem sparse_text_accepted_and_bad_url_fatal:
  "non_whitespace_count ''a b c d e f g h i j k'' < 20
   \<and> dict_get (fst (jd_extractor_agent_run
         (example_env (\<lambda>n. Inr reply_skills) (Response 404 []))
         \<lparr>job_url = [], job_description_text = ''a b c d e f g h i j k'',
          job_title = [], company_name = []\<rparr> fresh_world)) ''success'' = JBool True
   \<and> 20 \<le> non_whitespace_count example_posting_text
   \<and> dict_get (fst (jd_extractor_agent_run
         (example_env (\<lambda>n. Inr reply_skills) (Response 404 []))
         \<lparr>job_url = ''https://example.com/jobs/42'',
          job_description_text = example_posting_text,
          job_title = [], company_name = []\<rparr> fresh_world)) ''success'' = JBool False"
proof -
  let ?e = "example_env (\<lambda>n. Inr reply_skills) (Response 404 [])"
  have sparse: "non_whitespace_count ''a b c d e f g h i j k'' < 20"
    by (simp add: non_whitespace_count_def py_isspace_def)
  have stripped: "20 \<le> length (py_strip ''a b c d e f g h i j k'')"
    by (simp add: py_strip_def py_isspace_def)
  have accepted: "dict_get (fst (jd_extractor_agent_run ?e
         \<lparr>job_url = [], job_description_text = ''a b c d e f g h i j k'',
          job_title = [], company_name = []\<rparr> fresh_world)) ''success'' = JBool True"
    unfolding jd_extractor_agent_run_def run_success_flag
    by (simp add: jd_extractor_execute_def structure_and_override_long [OF stripped])
  have usable: "20 \<le> non_whitespace_count example_posting_text"
    by (simp add: non_whitespace_count_def example_posting_text_def py_isspace_def)
  have fetched: "fetch_job_from_url ?e ''https://example.com/jobs/42'' fresh_world =
                   (failed (''Site returned status '' @ str_int 404),
                    \<lparr>llm_calls = 0, http_calls = 1, revisions = 0, score_runs = 0\<rparr>)"
    by (simp add: fetch_job_from_url_def parse_url_info_def fetch_generic_def client_get_def
        example_env_def fresh_world_def startswith_def Let_def del: str_nat.simps)
  have fatal: "dict_get (fst (jd_extractor_agent_run ?e
         \<lparr>job_url = ''https://example.com/jobs/42'',
          job_description_text = example_posting_text,
          job_title = [], company_name = []\<rparr> fresh_world)) ''success'' = JBool False"
    unfolding jd_extractor_agent_run_def run_success_flag
    by (simp add: jd_extractor_execute_def py_strip_def py_isspace_def fetched failed_def)
  from sparse accepted usable fatal show ?thesis by blast
qed

text \<open>
  Claim C5, amended. For a request with no URL (empty or only whitespace), resolution
  succeeds exactly when the pasted text has at least 20 characters once leading and
  trailing whitespace is stripped; otherwise it fails with the ValueError that asks for
  a URL or a pasted description, returned to the caller as the error envelope of the
  stage, which holds no posting, and nothing is fetched or asked of the provider.
\<close>

theorem no_url_fails_exactly_on_short_text:
  assumes no_url: "job_url inp = [] \<or> py_strip (job_url inp) = []"
  shows "dict_get (fst (jd_extractor_agent_run e inp w)) ''success'' =
           JBool (20 \<le> length (py_strip (job_description_text inp)))
       \<and> (length (py_strip (job_description_text inp)) < 20 \<longrightarrow>
            jd_extractor_agent_run e inp w =
              ([(''agent_name'', JStr ''JD_Extractor''),
                (''success'', JBool False),
                (''error'', JStr (exc_msg no_description)),
                (''error_type'', JStr ''ValueError'')], w))"
proof -
  let ?text = "job_description_text inp"
  have exec: "jd_extractor_execute e inp w =
                structure_and_override e ?text (job_title inp) (company_name inp) w"
    using no_url by (auto simp: jd_extractor_execute_def)
  show ?thesis
  proof (cases "length (py_strip ?text) < 20")
    case True
    then have "jd_extractor_execute e inp w = (Inl no_description, w)"
      by (simp add: exec structure_and_override_short)
    then have "jd_extractor_agent_run e inp w =
              ([(''agent_name'', JStr ''JD_Extractor''),
                (''success'', JBool False),
                (''error'', JStr (exc_msg no_description)),
                (''error_type'', JStr ''ValueError'')], w)"
      by (simp add: jd_extractor_agent_run_def run_def no_description_def)
    with True show ?thesis
      by (simp add: dict_get_def)
  next
    case False
    then have long: "20 \<le> length (py_strip ?text)"
      by simp
    have "dict_get (fst (jd_extractor_agent_run e inp w)) ''success'' = JBool True"
      unfolding jd_extractor_agent_run_def run_success_flag
      by (simp add: exec structure_and_override_long [OF long])
    with False show ?thesis
      by simp
  qed
qed

theorem no_url_fails_exactly_on_short_text_witness:
  "dict_get (fst (jd_extractor_agent_run
       (example_env (\<lambda>n. Inr reply_skills) (Response 404 []))
       \<lparr>job_url = [], job_description_text = ''  Go developer  '',
        job_title = [], company_name = []\<rparr> fresh_world)) ''success'' = JBool False
   \<and> jd_extractor_agent_run
       (example_env (\<lambda>n. Inr reply_skills) (Response 404 []))
       \<lparr>job_url = [], job_description_text = ''  Go developer  '',
        job_title = [], company_name = []\<rparr> fresh_world =
       ([(''agent_name'', JStr ''JD_Extractor''),
         (''success'', JBool False),
         (''error'', JStr (exc_msg no_description)),
         (''error_type'', JStr ''ValueError'')], fresh_world)"
proof -
  let ?inp = "\<lparr>job_url = [], job_description_text = ''  Go developer  '',
        job_title = [], company_name = []\<rparr>"
  have no_url: "job_url ?inp = [] \<or> py_strip (job_url ?inp) = []"
    by simp
  have short: "length (py_strip (job_description_text ?inp)) < 20"
    by (simp add: py_strip_def py_isspace_def)
  from no_url_fails_exactly_on_short_text
         [OF no_url, of "example_env (\<lambda>n. Inr reply_skills) (Response 404 [])" fresh_world]
       short
  show ?thesis
    by (simp add: dict_get_def)
qed

section \<open>The fallback on the URL pattern\<close>

lemma first_some_in:
  assumes "first_some f xs = Some y"
  shows "\<exists>x \<in> set xs. f x = Some y"
  using assms by (induction xs) (auto split: option.splits)

lemma greedy_splits_nonempty:
  assumes "(g, r) \<in> set (greedy_splits s)"
  shows "g \<noteq> []"
proof -
  let ?n = "length (takeWhile (\<lambda>c. c \<noteq> CHR ''/'') s)"
  from assms obtain k where k: "1 \<le> k" "k \<le> ?n" and g: "g = take k s"
    by (auto simp: greedy_splits_def)
  have "?n \<le> length s"
    by (rule length_takeWhile_le)
  with k have "s \<noteq> []"
    by auto
  with k g show ?thesis
    by (cases s) auto
qed

lemma match_company_id_nonempty:
  assumes "match_company_id s = Some g"
  shows "g \<noteq> []"
proof -
  from first_some_in [OF assms [unfolded match_company_id_def]]
  obtain g' r where "(g', r) \<in> set (greedy_splits s)" and "g' = g"
    by (auto split: list.splits if_splits)
  then show ?thesis
    by (auto dest: greedy_splits_nonempty)
qed

lemma match_title_company_nonempty:
  assumes "match_title_company s = Some (t, c)"
  shows "t \<noteq> [] \<and> c \<noteq> []"
proof -
  from first_some_in [OF assms [unfolded match_title_company_def]]
  obtain r where "(t, r) \<in> set (greedy_splits s)" and "match_company_id (drop 4 r) = Some c"
    by (auto split: if_splits option.splits)
  then show ?thesis
    by (auto dest: greedy_splits_nonempty match_company_id_nonempty)
qed

lemma search_title_nonempty:
  assumes "search_title s = Some (t, c)"
  shows "t \<noteq> [] \<and> c \<noteq> []"
  using assms
  by (induction s) (auto split: if_splits option.splits dest: match_title_company_nonempty)

lemma search_title_Nil:
  "search_title [] = None"
  by simp

lemma title_from_nonempty:
  assumes "s \<noteq> []"
  shows "title_from b s \<noteq> []"
  using assms by (cases s) simp_all

lemma py_title_nonempty:
  assumes "s \<noteq> []"
      and "\<And>u. u \<noteq> [] \<Longrightarrow> unicode_title e u \<noteq> []"
  shows "py_title e (dashes_to_spaces s) \<noteq> []"
proof -
  from assms(1) have "dashes_to_spaces s \<noteq> []"
    by (simp add: dashes_to_spaces_def)
  with assms(2) show ?thesis
    by (simp add: py_title_def title_from_nonempty)
qed

lemma py_title_ascii:
  assumes "list_all is_ascii s"
  shows "py_title e s = title_from False s"
  using assms by (simp add: py_title_def)

lemma py_strip_framed:
  assumes "\<not> py_isspace c" and "\<not> py_isspace d"
  shows "py_strip (c # m @ [d, CHR ''\<newline>'']) = c # m @ [d]"
  using assms by (simp add: py_strip_def py_isspace_def)

lemma placeholder_framed:
  "\<exists>m. generate_placeholder_jd info url = CHR ''J'' # m @ [CHR ''e'', CHR ''\<newline>'']
        \<and> 20 \<le> length m"
proof -
  let ?m = "''ob Posting from '' @ ui_source info @ ''\<newline>\<newline>''
     @ ''Job Title: '' @ opt_or (ui_title info) ''Position'' @ ''\<newline>''
     @ ''Company: '' @ opt_or (ui_company info) ''Company'' @ ''\<newline>''
     @ ''Source URL: '' @ url @ ''\<newline>\<newline>''
     @ ''Note: This job description was extracted from the URL pattern. \<newline>''
     @ ''For the most accurate resume generation, please use the '' @ [CHR 0x22]
     @ ''Paste JD'' @ [CHR 0x22] @ '' option \<newline>''
     @ ''and copy the full job description from the job posting.\<newline>\<newline>''
     @ ''The AI will generate a resume based on:\<newline>''
     @ ''- The job title and company extracted from the URL\<newline>''
     @ ''- Your profile information\<newline>''
     @ ''- Standard requirements for this type of rol''"
  have "generate_placeholder_jd info url = CHR ''J'' # ?m @ [CHR ''e'', CHR ''\<newline>'']"
    by (simp add: generate_placeholder_jd_def)
  moreover have "20 \<le> length ?m"
    by simp
  ultimately show ?thesis
    by blast
qed

lemma placeholder_usable:
  "generate_placeholder_jd info url \<noteq> []
   \<and> 20 \<le> length (py_strip (generate_placeholder_jd info url))"
proof -
  from placeholder_framed [of info url]
  obtain m where shape: "generate_placeholder_jd info url = CHR ''J'' # m @ [CHR ''e'', CHR ''\<newline>'']"
    and long: "20 \<le> length m"
    by blast
  have "py_strip (CHR ''J'' # m @ [CHR ''e'', CHR ''\<newline>'']) = CHR ''J'' # m @ [CHR ''e'']"
    by (rule py_strip_framed) (simp_all add: py_isspace_def)
  with shape long show ?thesis
    by simp
qed

lemma linkedin_fallback:
  assumes host: "str_contains url ''linkedin.com''"
      and slug: "search_title url = Some (t, c)"
      and parsed: "\<not> urlparse_raises e url"
      and fetch: "http_get e (http_calls w) url = Response status body"
      and status: "status \<noteq> 200"
  shows "fetch_job_from_url e url w =
     (\<lparr>sr_success = True,
       sr_job_text = Some (generate_placeholder_jd (linkedin_info e url t c) url),
       sr_title = Some (py_title e (dashes_to_spaces t)),
       sr_company = Some (py_title e (dashes_to_spaces c)),
       sr_error = None,
       sr_source = Some ''url_parsed'',
       sr_note = Some (''Job details extracted from URL. ''
                        @ ''For best results, paste the full job description.'')\<rparr>,
      w\<lparr>http_calls := Suc (http_calls w)\<rparr>)"
  using assms
  by (simp add: fetch_job_from_url_def parse_url_info_def fetch_linkedin_def client_get_def
      failed_def linkedin_info_def opt_or_def Let_def del: str_nat.simps)

lemma startswith_append:
  "startswith (p @ r) p"
  by (simp add: startswith_def)

lemma linkedin_placeholder_head:
  "startswith (generate_placeholder_jd (linkedin_info e url t c) url)
     (''Job Posting from LinkedIn\<newline>\<newline>''
      @ ''Job Title: '' @ py_title e (dashes_to_spaces t) @ ''\<newline>''
      @ ''Company: '' @ py_title e (dashes_to_spaces c) @ ''\<newline>''
      @ ''Source URL: '' @ url)"
proof -
  let ?head = "''Job Posting from LinkedIn\<newline>\<newline>''
      @ ''Job Title: '' @ py_title e (dashes_to_spaces t) @ ''\<newline>''
      @ ''Company: '' @ py_title e (dashes_to_spaces c) @ ''\<newline>''
      @ ''Source URL: '' @ url"
  let ?rest = "''\<newline>\<newline>''
     @ ''Note: This job description was extracted from the URL pattern. \<newline>''
     @ ''For the most accurate resume generation, please use the '' @ [CHR 0x22]
     @ ''Paste JD'' @ [CHR 0x22] @ '' option \<newline>''
     @ ''and copy the full job description from the job posting.\<newline>\<newline>''
     @ ''The AI will generate a resume based on:\<newline>''
     @ ''- The job title and company extracted from the URL\<newline>''
     @ ''- Your profile information\<newline>''
     @ ''- Standard requirements for this type of role\<newline>''"
  have "generate_placeholder_jd (linkedin_info e url t c) url = ?head @ ?rest"
    by (simp add: generate_placeholder_jd_def linkedin_info_def opt_or_def)
  then show ?thesis
    by (simp only: startswith_append)
qed

text \<open>
  Claim C4. A request that supplies only a URL, where the URL names the LinkedIn host
  and has a title-at-company-id path, \<^verbatim>\<open>urlparse\<close> accepts it, and the fetch answers
  with a status other than 200: the scraper returns a successful result that carries
  the title and the company parsed from the URL and the placeholder text, which begins
  with the source, that title, that company and the URL; and resolution returns
  \<^verbatim>\<open>success = True\<close> with that title and company as \<^verbatim>\<open>job_title\<close> and
  \<^verbatim>\<open>company_name\<close>. Title-casing keeps a text that is not empty from becoming empty,
  as \<^verbatim>\<open>str.title\<close> does.
\<close>

theorem linkedin_slug_gives_placeholder_posting:
  assumes url: "url = py_strip (job_url inp)"
      and host: "str_contains url ''linkedin.com''"
      and slug: "search_title url = Some (t, c)"
      and parsed: "\<not> urlparse_raises e url"
      and fetch: "http_get e (http_calls w) url = Response status body"
      and status: "status \<noteq> 200"
      and no_title: "job_title inp = []"
      and no_company: "company_name inp = []"
      and titled: "\<And>u. u \<noteq> [] \<Longrightarrow> unicode_title e u \<noteq> []"
  shows "dict_get (fst (jd_extractor_agent_run e inp w)) ''success'' = JBool True
       \<and> dict_get (fst (jd_extractor_agent_run e inp w)) ''job_title''
           = JStr (py_title e (dashes_to_spaces t))
       \<and> dict_get (fst (jd_extractor_agent_run e inp w)) ''company_name''
           = JStr (py_title e (dashes_to_spaces c))
       \<and> fst (fetch_job_from_url e url w) =
           \<lparr>sr_success = True,
            sr_job_text = Some (generate_placeholder_jd (linkedin_info e url t c) url),
            sr_title = Some (py_title e (dashes_to_spaces t)),
            sr_company = Some (py_title e (dashes_to_spaces c)),
            sr_error = None,
            sr_source = Some ''url_parsed'',
            sr_note = Some (''Job details extracted from URL. ''
                             @ ''For best results, paste the full job description.'')\<rparr>
       \<and> startswith (generate_placeholder_jd (linkedin_info e url t c) url)
            (''Job Posting from LinkedIn\<newline>\<newline>''
             @ ''Job Title: '' @ py_title e (dashes_to_spaces t) @ ''\<newline>''
             @ ''Company: '' @ py_title e (dashes_to_spaces c) @ ''\<newline>''
             @ ''Source URL: '' @ url)"
proof -
  let ?w' = "w\<lparr>http_calls := Suc (http_calls w)\<rparr>"
  let ?text = "generate_placeholder_jd (linkedin_info e url t c) url"
  let ?title = "py_title e (dashes_to_spaces t)"
  let ?company = "py_title e (dashes_to_spaces c)"
  note fallback = linkedin_fallback [OF host slug parsed fetch status]
  from slug have "url \<noteq> []"
    by auto
  with url have given: "job_url inp \<noteq> [] \<and> py_strip (job_url inp) \<noteq> []"
    by (auto simp: py_strip_Nil)
  from search_title_nonempty [OF slug] have "t \<noteq> []" and "c \<noteq> []"
    by simp_all
  then have names: "?title \<noteq> []" "?company \<noteq> []"
    using titled by (simp_all add: py_title_nonempty)
  from placeholder_usable [of "linkedin_info e url t c" url]
  have long: "20 \<le> length (py_strip ?text)"
    by simp
  have exec: "jd_extractor_execute e inp w = structure_and_override e ?text ?title ?company ?w'"
    using given fallback url no_title no_company
    by (simp add: jd_extractor_execute_def opt_or_def)
  obtain d w2 where structured: "structure_job_data e ?text ?w' = (d, w2)"
    by (cases "structure_job_data e ?text ?w'")
  have result: "jd_extractor_execute e inp w =
                  (Inr (dict_set (dict_set d ''job_title'' (JStr ?title))
                          ''company_name'' (JStr ?company)), w2)"
    using names structured
    by (simp add: exec structure_and_override_long [OF long] Let_def)
  have run: "fst (jd_extractor_agent_run e inp w) =
               dict_set (dict_set
                 (dict_set (dict_set d ''job_title'' (JStr ?title)) ''company_name'' (JStr ?company))
                 ''agent_name'' (JStr ''JD_Extractor'')) ''success'' (JBool True)"
    by (simp add: jd_extractor_agent_run_def run_def result)
  have "dict_get (fst (jd_extractor_agent_run e inp w)) ''success'' = JBool True"
    unfolding run by (simp add: dict_get_def dict_set_def update_conv')
  moreover have "dict_get (fst (jd_extractor_agent_run e inp w)) ''job_title'' = JStr ?title"
    unfolding run by (simp add: dict_get_def dict_set_def update_conv')
  moreover have "dict_get (fst (jd_extractor_agent_run e inp w)) ''company_name'' = JStr ?company"
    unfolding run by (simp add: dict_get_def dict_set_def update_conv')
  moreover have "fst (fetch_job_from_url e url w) =
           \<lparr>sr_success = True,
            sr_job_text = Some ?text,
            sr_title = Some ?title,
            sr_company = Some ?company,
            sr_error = None,
            sr_source = Some ''url_parsed'',
            sr_note = Some (''Job details extracted from URL. ''
                             @ ''For best results, paste the full job description.'')\<rparr>"
    by (simp add: fallback)
  moreover note linkedin_placeholder_head [of e url t c]
  ultimately show ?thesis
    by blast
qed

lemma example_linkedin_slug:
  "search_title example_linkedin_url = Some (''software-engineer'', ''acme-corp'')"
  unfolding example_linkedin_url_def by code_simp

lemma example_linkedin_host:
  "str_contains example_linkedin_url ''linkedin.com''"
  unfolding example_linkedin_url_def by code_simp

lemma example_slug_ascii:
  "list_all is_ascii (dashes_to_spaces ''software-engineer'')
   \<and> list_all is_ascii (dashes_to_spaces ''acme-corp'')"
  by code_simp

lemma example_slug_titles:
  "title_from False (dashes_to_spaces ''software-engineer'') = ''Software Engineer''
   \<and> title_from False (dashes_to_spaces ''acme-corp'') = ''Acme Corp''"
  by code_simp

lemma example_linkedin_names:
  "py_title e (dashes_to_spaces ''software-engineer'') = ''Software Engineer''
   \<and> py_title e (dashes_to_spaces ''acme-corp'') = ''Acme Corp''"
  using example_slug_ascii example_slug_titles by (simp add: py_title_ascii)

lemma example_linkedin_stripped:
  "py_strip example_linkedin_url = example_linkedin_url"
  unfolding example_linkedin_url_def by code_simp

theorem linkedin_slug_gives_placeholder_posting_witness:
  "dict_get (fst (jd_extractor_agent_run
        (example_env (\<lambda>n. Inr reply_no_score) (Response 999 []))
        \<lparr>job_url = example_linkedin_url, job_description_text = [],
         job_title = [], company_name = []\<rparr> fresh_world)) ''success'' = JBool True
   \<and> dict_get (fst (jd_extractor_agent_run
        (example_env (\<lambda>n. Inr reply_no_score) (Response 999 []))
        \<lparr>job_url = example_linkedin_url, job_description_text = [],
         job_title = [], company_name = []\<rparr> fresh_world)) ''job_title''
       = JStr ''Software Engineer''
   \<and> dict_get (fst (jd_extractor_agent_run
        (example_env (\<lambda>n. Inr reply_no_score) (Response 999 []))
        \<lparr>job_url = example_linkedin_url, job_description_text = [],
         job_title = [], company_name = []\<rparr> fresh_world)) ''company_name''
       = JStr ''Acme Corp''
   \<and> sr_title (fst (fetch_job_from_url
        (example_env (\<lambda>n. Inr reply_no_score) (Response 999 []))
        example_linkedin_url fresh_world)) = Some ''Software Engineer''
   \<and> sr_company (fst (fetch_job_from_url
        (example_env (\<lambda>n. Inr reply_no_score) (Response 999 []))
        example_linkedin_url fresh_world)) = Some ''Acme Corp''
   \<and> startswith (generate_placeholder_jd
          (linkedin_info (example_env (\<lambda>n. Inr reply_no_score) (Response 999 []))
             example_linkedin_url ''software-engineer'' ''acme-corp'') example_linkedin_url)
        (''Job Posting from LinkedIn\<newline>\<newline>''
         @ ''Job Title: Software Engineer\<newline>''
         @ ''Company: Acme Corp\<newline>''
         @ ''Source URL: '' @ example_linkedin_url)"
proof -
  let ?e = "example_env (\<lambda>n. Inr reply_no_score) (Response 999 [])"
  let ?inp = "\<lparr>job_url = example_linkedin_url, job_description_text = [],
         job_title = [], company_name = []\<rparr>"
  have url: "example_linkedin_url = py_strip (job_url ?inp)"
    by (simp add: example_linkedin_stripped)
  have parsed: "\<not> urlparse_raises ?e example_linkedin_url"
    by (simp add: example_env_def)
  have fetch: "http_get ?e (http_calls fresh_world) example_linkedin_url = Response 999 []"
    by (simp add: example_env_def)
  have status: "(999 :: int) \<noteq> 200"
    by simp
  have no_title: "job_title ?inp = []" and no_company: "company_name ?inp = []"
    by simp_all
  have titled: "u \<noteq> [] \<Longrightarrow> unicode_title ?e u \<noteq> []" for u
    by (simp add: example_env_def)
  from linkedin_slug_gives_placeholder_posting
         [OF url example_linkedin_host example_linkedin_slug parsed fetch status
             no_title no_company titled]
  show ?thesis
    by (simp add: example_linkedin_names)
qed

section \<open>What every run of the loop does\<close>

text \<open>
  No input makes the optimizer stage ask for another iteration: each of its outcomes
  either says \<^verbatim>\<open>should_continue = False\<close> or is an error envelope, and none changes
  the state. So the loop never gets past its first iteration, never replaces the resume
  or the history, and never makes a revision, and the row that is returned reports one
  iteration.
\<close>

lemma optimizer_execute_outcomes:
  "(\<exists>x. optimizer_execute st e inp w = (Inl x, w))
   \<or> (\<exists>r. optimizer_execute st e inp w = (Inr r, w)
            \<and> map_of r ''should_continue'' = Some (JBool False))"
proof -
  let ?score = "py_ge_int (dict_get_or inp ''ats_score'' (JInt 0)) (ATS_TARGET_SCORE st)"
  let ?cap = "py_ge_int (dict_get_or inp ''iteration'' (JInt 1)) (MAX_OPTIMIZATION_ITERATIONS st)"
  consider (score_error) x where "?score = Inl x"
    | (reached) "?score = Inr True"
    | (cap_error) x where "?score = Inr False" and "?cap = Inl x"
    | (capped) "?score = Inr False" and "?cap = Inr True"
    | (revise) "?score = Inr False" and "?cap = Inr False"
  proof (cases ?score)
    case (Inl x)
    then show ?thesis by (rule score_error)
  next
    case (Inr b)
    show ?thesis
    proof (cases b)
      case True
      with Inr show ?thesis by (auto intro: reached)
    next
      case False
      with Inr have below: "?score = Inr False" by simp
      show ?thesis
      proof (cases ?cap)
        case (Inl x)
        with below show ?thesis by (rule cap_error)
      next
        case (Inr c)
        with below show ?thesis by (cases c) (auto intro: capped revise)
      qed
    qed
  qed
  then show ?thesis
  proof cases
    case score_error
    then show ?thesis by (simp add: optimizer_execute_def Let_def)
  next
    case reached
    then show ?thesis by (simp add: optimizer_execute_reached)
  next
    case cap_error
    then show ?thesis by (simp add: optimizer_execute_def Let_def)
  next
    case capped
    then show ?thesis by (simp add: optimizer_execute_def Let_def)
  next
    case revise
    then show ?thesis by (simp add: optimizer_execute_type_error)
  qed
qed

lemma optimizer_never_continues:
  "\<not> py_truthy (dict_get (fst (optimizer_agent_run st e inp w)) ''should_continue'')
   \<and> snd (optimizer_agent_run st e inp w) = w"
  using optimizer_execute_outcomes [of st e inp w]
  by (auto simp: optimizer_agent_run_def run_def dict_get_def dict_set_def update_conv')

lemma loop_ends_in_first_iteration:
  "fst (optimization_loop st e job its rc h w) = Inr (rc, h)
   \<and> revisions (snd (optimization_loop st e job its rc h w)) = revisions w"
proof (cases its)
  case Nil
  then show ?thesis by simp
next
  case (Cons i rest)
  obtain sr w1 where scored: "ats_scorer_agent_run e (scorer_input rc job) w = (sr, w1)"
    by (cases "ats_scorer_agent_run e (scorer_input rc job) w")
  have rev1: "revisions w1 = revisions w"
    using ats_scorer_agent_run_revisions [of e "scorer_input rc job" w] scored by simp
  show ?thesis
  proof (cases "py_truthy (dict_get sr ''success'')")
    case False
    from loop_step_scoring_failed [OF scored False] rev1 Cons show ?thesis
      by simp
  next
    case True
    obtain r w2 where opt: "optimizer_agent_run st e (optimizer_input rc sr i h) w1 = (r, w2)"
      by (cases "optimizer_agent_run st e (optimizer_input rc sr i h) w1")
    with optimizer_never_continues [of st e "optimizer_input rc sr i h" w1]
    have stop: "\<not> py_truthy (dict_get r ''should_continue'')" and same: "w2 = w1"
      by simp_all
    from loop_step_stop [OF scored True opt stop] rev1 same Cons show ?thesis
      by simp
  qed
qed

lemma every_run_reports_one_iteration:
  assumes "generate_resume_from st e job generated w = (Inr row, w')"
  shows "iterations row = 1 \<and> latex_content row = generated
         \<and> optimization_history row = JList [] \<and> revisions w' = revisions w"
proof -
  obtain w1 where loop: "optimization_loop st e job [1, 2, 3, 4, 5] generated (JList []) w
                          = (Inr (generated, JList []), w1)"
    and rev1: "revisions w1 = revisions w"
    using loop_ends_in_first_iteration [of st e job "[1, 2, 3, 4, 5]" generated "JList []" w]
    by (cases "optimization_loop st e job [1, 2, 3, 4, 5] generated (JList []) w") auto
  obtain fr w2 where final: "ats_scorer_agent_run e (scorer_input generated job) w1 = (fr, w2)"
    by (cases "ats_scorer_agent_run e (scorer_input generated job) w1")
  have rev2: "revisions w2 = revisions w"
    using ats_scorer_agent_run_revisions [of e "scorer_input generated job" w1] final rev1
    by simp
  from assms have "finish_resume e job generated (JList []) w1 = (Inr row, w')"
    unfolding generate_resume_from_def loop by simp
  with final rev2 show ?thesis
    by (auto simp: finish_resume_def Let_def)
qed

end
